theory Spec2Isabelle
  imports Complex_Main "HOL-Library.Word"
begin

unbundle bit_operations_syntax

section \<open>The GY521 accelerometer-gyroscope driver (GY521.cpp, version 0.3.7)\<close>

text \<open>
  The driver is embedded function by function. Three conventions hold throughout.

  \<^item> A finite value of the C type \<open>float\<close> is read as a \<^typ>\<open>real\<close>: every product and
    sum is the exact one, \<open>atan\<close>, \<open>sqrt\<close> and \<open>PI\<close> are \<^const>\<open>arctan\<close>,
    \<^const>\<open>sqrt\<close> and \<^const>\<open>pi\<close>; rounding is not represented. The driver divides
    without a guard when it computes the tilt angles, so the quotient, and whatever is
    computed from it (the tilt angles, pitch and roll), has the type \<open>fval\<close> below,
    which has the infinities and NaN of the floats. The other members are taken to hold
    finite values.
  \<^item> The bus object \<open>_wire\<close> (class \<open>TwoWire\<close>) is not part of the library. Its member
    functions are a parameter \<open>W\<close> of every operation, acting on a bus state of an
    arbitrary type \<open>'w\<close> that is passed in and returned.
  \<^item> \<open>millis()\<close> and \<open>micros()\<close> are parameters: the value the call returns.
\<close>

subsection \<open>The bus interface\<close>

text \<open>
  The member functions of \<open>TwoWire\<close> that the driver calls. \<open>endTransmission\<close> and
  \<open>requestFrom\<close> return a byte, \<open>read\<close> returns an \<open>int\<close>.
\<close>

record 'w TwoWire =
  wire_beginTransmission :: "8 word \<Rightarrow> 'w \<Rightarrow> 'w"
  wire_write :: "8 word \<Rightarrow> 'w \<Rightarrow> 'w"
  wire_endTransmission :: "'w \<Rightarrow> 8 word \<times> 'w"
  wire_requestFrom :: "8 word \<Rightarrow> 8 word \<Rightarrow> 'w \<Rightarrow> 8 word \<times> 'w"
  wire_read :: "'w \<Rightarrow> int \<times> 'w"

subsection \<open>Constants of the headers\<close>

text \<open>
  \<open>GY521.h\<close> and \<open>GY521_registers.h\<close> are not among the sources. The macros the driver
  takes from them are the fields of a parameter \<open>K\<close>: the default throttle interval, the
  status codes other than \<open>GY521_OK\<close>, and the register addresses.
\<close>

record header =
  GY521_THROTTLE_TIME :: "16 word"
  GY521_THROTTLED :: "16 word"
  GY521_ERROR_READ :: "16 word"
  GY521_ERROR_WRITE :: "16 word"
  GY521_PWR_MGMT_1 :: "8 word"
  GY521_ACCEL_CONFIG :: "8 word"
  GY521_GYRO_CONFIG :: "8 word"
  GY521_ACCEL_XOUT_H :: "8 word"
  GY521_TEMP_OUT_H :: "8 word"
  GY521_GYRO_XOUT_H :: "8 word"

text \<open>
  Modelled from the spec: the macro \<open>GY521_OK\<close> of \<open>GY521.h\<close>, which is not among the
  sources. The spec's error taxonomy gives it the value 0, and the driver itself tests
  \<open>_error != 0\<close> and \<open>_error != GY521_OK\<close> for the same purpose.
\<close>

definition GY521_OK :: "16 word" where
  "GY521_OK = 0"

definition GY521_WAKEUP :: "8 word" where
  "GY521_WAKEUP = 0x00"

definition RAD2DEGREES :: real where
  "RAD2DEGREES = 180.0 / pi"

definition RAW2DPS_FACTOR :: real where
  "RAW2DPS_FACTOR = 1.0 / 131.0"

definition RAW2G_FACTOR :: real where
  "RAW2G_FACTOR = 1.0 / 16384.0"

subsection \<open>Float values with infinities and NaN\<close>

text \<open>
  The values a \<open>float\<close> expression can have once a division by zero is possible, and
  the operations of the floats on them, as far as the driver uses them: a quotient of
  two finite values (the divisor of the driver is a square root, so a zero divisor is
  \<open>+0\<close>), the arc tangent, product and sum. A nonzero value over zero is an infinity
  of the sign of the dividend, zero over zero is NaN, the arc tangent of an infinity is
  \<open>\<plusminus>\<pi>/2\<close>, and NaN propagates.
\<close>

datatype fval = Finite real | PosInf | NegInf | NaN

definition fdiv :: "real \<Rightarrow> real \<Rightarrow> fval" where
  "fdiv x y =
    (if y = 0 then (if x = 0 then NaN else if 0 < x then PosInf else NegInf)
     else Finite (x / y))"

definition fatan :: "fval \<Rightarrow> fval" where
  "fatan v =
    (case v of
       Finite x \<Rightarrow> Finite (arctan x)
     | PosInf \<Rightarrow> Finite (pi / 2)
     | NegInf \<Rightarrow> Finite (- (pi / 2))
     | NaN \<Rightarrow> NaN)"

text \<open>The infinity of the given sign, and the product of an infinity with a finite value.\<close>

definition inf_of_sign :: "bool \<Rightarrow> fval" where
  "inf_of_sign positive = (if positive then PosInf else NegInf)"

definition inf_times :: "bool \<Rightarrow> real \<Rightarrow> fval" where
  "inf_times positive x =
    (if x = 0 then NaN else inf_of_sign (if 0 < x then positive else \<not> positive))"

definition fmul :: "fval \<Rightarrow> fval \<Rightarrow> fval" where
  "fmul a b =
    (case a of
       NaN \<Rightarrow> NaN
     | Finite x \<Rightarrow>
        (case b of
           NaN \<Rightarrow> NaN
         | Finite y \<Rightarrow> Finite (x * y)
         | PosInf \<Rightarrow> inf_times True x
         | NegInf \<Rightarrow> inf_times False x)
     | PosInf \<Rightarrow>
        (case b of
           NaN \<Rightarrow> NaN
         | Finite y \<Rightarrow> inf_times True y
         | PosInf \<Rightarrow> PosInf
         | NegInf \<Rightarrow> NegInf)
     | NegInf \<Rightarrow>
        (case b of
           NaN \<Rightarrow> NaN
         | Finite y \<Rightarrow> inf_times False y
         | PosInf \<Rightarrow> NegInf
         | NegInf \<Rightarrow> PosInf))"

definition fadd :: "fval \<Rightarrow> fval \<Rightarrow> fval" where
  "fadd a b =
    (case a of
       NaN \<Rightarrow> NaN
     | Finite x \<Rightarrow> (case b of Finite y \<Rightarrow> Finite (x + y) | _ \<Rightarrow> b)
     | PosInf \<Rightarrow> (case b of NaN \<Rightarrow> NaN | NegInf \<Rightarrow> NaN | _ \<Rightarrow> PosInf)
     | NegInf \<Rightarrow> (case b of NaN \<Rightarrow> NaN | PosInf \<Rightarrow> NaN | _ \<Rightarrow> NegInf))"

subsection \<open>The driver object\<close>

text \<open>
  Modelled from the spec: the data members of class \<open>GY521\<close>, declared in \<open>GY521.h\<close>,
  which is not among the sources. The fields are the members that \<open>GY521.cpp\<close> reads
  and writes, under their names without the leading underscore; \<open>axe\<close> to \<open>gze\<close> are
  the public calibration offsets. The integer widths follow the uses in the source:
  \<open>_lastTime\<close> and \<open>_lastMicros\<close> are assigned from a \<open>uint32_t\<close>, \<open>_error\<close> is
  returned from functions of type \<open>int16_t\<close>, \<open>_afs\<close> and \<open>_gfs\<close> are assigned from
  a \<open>uint8_t\<close>, and the throttle interval is a 16-bit count of milliseconds. The tilt
  angles, pitch and roll are \<open>fval\<close>, the other \<open>float\<close> members are finite.
\<close>

record gy521 =
  address :: "8 word"
  throttle :: bool
  throttleTime :: "16 word"
  lastTime :: "32 word"
  lastMicros :: "32 word"
  error :: "16 word"
  afs :: "8 word"
  raw2g :: real
  ax :: real
  ay :: real
  az :: real
  aax :: fval
  aay :: fval
  aaz :: fval
  gfs :: "8 word"
  raw2dps :: real
  gx :: real
  gy :: real
  gz :: real
  gax :: real
  gay :: real
  gaz :: real
  pitch :: fval
  roll :: fval
  yaw :: real
  temperature :: real
  axe :: real
  aye :: real
  aze :: real
  gxe :: real
  gye :: real
  gze :: real

text \<open>
  Modelled from the spec: the inline members \<open>setThrottleTime\<close> and \<open>getError\<close> of
  \<open>GY521.h\<close>, which is not among the sources: the setter of the minimum interval and
  the accessor of the last error code.
\<close>

definition setThrottleTime :: "16 word \<Rightarrow> gy521 \<Rightarrow> gy521" where
  "setThrottleTime ti s = s\<lparr>throttleTime := ti\<rparr>"

definition getError :: "gy521 \<Rightarrow> 16 word" where
  "getError s = error s"

subsection \<open>Lifecycle\<close>

definition reset :: "header \<Rightarrow> gy521 \<Rightarrow> gy521" where
  "reset K s =
    (let s = setThrottleTime (GY521_THROTTLE_TIME K) s;
         s = s\<lparr>az := 0\<rparr>; s = s\<lparr>ay := 0\<rparr>; s = s\<lparr>ax := 0\<rparr>;
         s = s\<lparr>aaz := Finite 0\<rparr>; s = s\<lparr>aay := Finite 0\<rparr>; s = s\<lparr>aax := Finite 0\<rparr>;
         s = s\<lparr>gz := 0\<rparr>; s = s\<lparr>gy := 0\<rparr>; s = s\<lparr>gx := 0\<rparr>;
         s = s\<lparr>pitch := Finite 0\<rparr>;
         s = s\<lparr>roll := Finite 0\<rparr>;
         s = s\<lparr>yaw := 0\<rparr>
     in s)"

text \<open>
  The constructor stores the address and calls \<open>reset\<close>; \<open>s\<close> is the object before the
  constructor body runs. (The pointer \<open>_wire\<close> is the parameter \<open>W\<close> of the operations.)
\<close>

definition GY521_construct :: "header \<Rightarrow> 8 word \<Rightarrow> gy521 \<Rightarrow> gy521" where
  "GY521_construct K addr s = reset K (s\<lparr>address := addr\<rparr>)"

definition isConnected :: "'w TwoWire \<Rightarrow> gy521 \<Rightarrow> 'w \<Rightarrow> bool \<times> gy521 \<times> 'w" where
  "isConnected W s w =
    (let w = wire_beginTransmission W (address s) w;
         (r, w) = wire_endTransmission W w
     in (r = 0, s, w))"

definition wakeup :: "header \<Rightarrow> 'w TwoWire \<Rightarrow> gy521 \<Rightarrow> 'w \<Rightarrow> bool \<times> gy521 \<times> 'w" where
  "wakeup K W s w =
    (let w = wire_beginTransmission W (address s) w;
         w = wire_write W (GY521_PWR_MGMT_1 K) w;
         w = wire_write W GY521_WAKEUP w;
         (r, w) = wire_endTransmission W w
     in (r = 0, s, w))"

subsection \<open>Register access\<close>

text \<open>\<open>_WireRead2\<close>: two bytes, high byte first, into an \<open>int16_t\<close>.\<close>

definition WireRead2 :: "'w TwoWire \<Rightarrow> 'w \<Rightarrow> 16 word \<times> 'w" where
  "WireRead2 W w =
    (let (hi, w) = wire_read W w;
         tmp = (word_of_int hi :: 16 word);
         tmp = push_bit 8 tmp;
         (lo, w) = wire_read W w;
         tmp = tmp OR word_of_int lo
     in (tmp, w))"

definition setRegister ::
  "header \<Rightarrow> 'w TwoWire \<Rightarrow> 8 word \<Rightarrow> 8 word \<Rightarrow> gy521 \<Rightarrow> 'w \<Rightarrow> 8 word \<times> gy521 \<times> 'w" where
  "setRegister K W reg val s w =
    (let w = wire_beginTransmission W (address s) w;
         w = wire_write W reg w;
         w = wire_write W val w;
         (r, w) = wire_endTransmission W w
     in if r \<noteq> 0
        then (let s = s\<lparr>error := GY521_ERROR_WRITE K\<rparr> in (ucast (error s), s, w))
        else (ucast GY521_OK, s, w))"

definition getRegister ::
  "header \<Rightarrow> 'w TwoWire \<Rightarrow> 8 word \<Rightarrow> gy521 \<Rightarrow> 'w \<Rightarrow> 8 word \<times> gy521 \<times> 'w" where
  "getRegister K W reg s w =
    (let w = wire_beginTransmission W (address s) w;
         w = wire_write W reg w;
         (r, w) = wire_endTransmission W w
     in if r \<noteq> 0
        then (let s = s\<lparr>error := GY521_ERROR_WRITE K\<rparr> in (ucast (error s), s, w))
        else
          (let (n, w) = wire_requestFrom W (address s) 1 w
           in if n \<noteq> 1
              then (let s = s\<lparr>error := GY521_ERROR_READ K\<rparr> in (ucast (error s), s, w))
              else
                (let (b, w) = wire_read W w;
                     val = (word_of_int b :: 8 word)
                 in (val, s, w))))"

subsection \<open>Sampling\<close>

text \<open>
  Each read takes \<open>ms\<close>, the value of \<open>millis()\<close> at entry; \<open>read\<close> and \<open>readGyro\<close> also
  take \<open>us\<close>, the value of \<open>micros()\<close> after the burst has been decoded. The
  comparison \<open>(now - _lastTime) < _throttleTime\<close> is one of unsigned 32-bit values.
\<close>

definition read ::
  "header \<Rightarrow> 'w TwoWire \<Rightarrow> 32 word \<Rightarrow> 32 word \<Rightarrow> gy521 \<Rightarrow> 'w \<Rightarrow> 16 word \<times> gy521 \<times> 'w" where
  "read K W ms us s w =
    (if throttle s \<and> ms - lastTime s < ucast (throttleTime s)
     then (GY521_THROTTLED K, s, w)
     else
      (let s = s\<lparr>lastTime := ms\<rparr>;
           w = wire_beginTransmission W (address s) w;
           w = wire_write W (GY521_ACCEL_XOUT_H K) w;
           (r, w) = wire_endTransmission W w
       in if r \<noteq> 0
          then (let s = s\<lparr>error := GY521_ERROR_WRITE K\<rparr> in (error s, s, w))
          else
           (let (n, w) = wire_requestFrom W (address s) 14 w
            in if n \<noteq> 14
               then (let s = s\<lparr>error := GY521_ERROR_READ K\<rparr> in (error s, s, w))
               else
                (let (v, w) = WireRead2 W w; s = s\<lparr>ax := real_of_int (sint v)\<rparr>;
                     (v, w) = WireRead2 W w; s = s\<lparr>ay := real_of_int (sint v)\<rparr>;
                     (v, w) = WireRead2 W w; s = s\<lparr>az := real_of_int (sint v)\<rparr>;
                     (v, w) = WireRead2 W w; s = s\<lparr>temperature := real_of_int (sint v)\<rparr>;
                     (v, w) = WireRead2 W w; s = s\<lparr>gx := real_of_int (sint v)\<rparr>;
                     (v, w) = WireRead2 W w; s = s\<lparr>gy := real_of_int (sint v)\<rparr>;
                     (v, w) = WireRead2 W w; s = s\<lparr>gz := real_of_int (sint v)\<rparr>;
                     duration = real (unat (us - lastMicros s)) * 0.000001;
                     s = s\<lparr>lastMicros := us\<rparr>;
                     s = s\<lparr>ax := ax s * raw2g s\<rparr>;
                     s = s\<lparr>ay := ay s * raw2g s\<rparr>;
                     s = s\<lparr>az := az s * raw2g s\<rparr>;
                     s = s\<lparr>ax := ax s + axe s\<rparr>;
                     s = s\<lparr>ay := ay s + aye s\<rparr>;
                     s = s\<lparr>az := az s + aze s\<rparr>;
                     ax2 = ax s * ax s;
                     ay2 = ay s * ay s;
                     az2 = az s * az s;
                     s = s\<lparr>aax := fmul (fatan (fdiv (ay s) (sqrt (ax2 + az2)))) (Finite RAD2DEGREES)\<rparr>;
                     s = s\<lparr>aay := fmul (fatan (fdiv (- 1.0 * ax s) (sqrt (ay2 + az2)))) (Finite RAD2DEGREES)\<rparr>;
                     s = s\<lparr>aaz := fmul (fatan (fdiv (az s) (sqrt (ax2 + ay2)))) (Finite RAD2DEGREES)\<rparr>;
                     s = s\<lparr>temperature := temperature s * 0.00294117647 + 36.53\<rparr>;
                     s = s\<lparr>gx := gx s * raw2dps s\<rparr>;
                     s = s\<lparr>gy := gy s * raw2dps s\<rparr>;
                     s = s\<lparr>gz := gz s * raw2dps s\<rparr>;
                     s = s\<lparr>gx := gx s + gxe s\<rparr>;
                     s = s\<lparr>gy := gy s + gye s\<rparr>;
                     s = s\<lparr>gz := gz s + gze s\<rparr>;
                     s = s\<lparr>gax := gax s + gx s * duration\<rparr>;
                     s = s\<lparr>gay := gay s + gy s * duration\<rparr>;
                     s = s\<lparr>gaz := gaz s + gz s * duration\<rparr>;
                     s = s\<lparr>yaw := gaz s\<rparr>;
                     s = s\<lparr>pitch := fadd (fmul (Finite 0.96) (Finite (gay s)))
                                          (fmul (Finite 0.04) (aay s))\<rparr>;
                     s = s\<lparr>roll := fadd (fmul (Finite 0.96) (Finite (gax s)))
                                         (fmul (Finite 0.04) (aax s))\<rparr>
                 in (GY521_OK, s, w)))))"

definition readAccel ::
  "header \<Rightarrow> 'w TwoWire \<Rightarrow> 32 word \<Rightarrow> gy521 \<Rightarrow> 'w \<Rightarrow> 16 word \<times> gy521 \<times> 'w" where
  "readAccel K W ms s w =
    (if throttle s \<and> ms - lastTime s < ucast (throttleTime s)
     then (GY521_THROTTLED K, s, w)
     else
      (let s = s\<lparr>lastTime := ms\<rparr>;
           w = wire_beginTransmission W (address s) w;
           w = wire_write W (GY521_ACCEL_XOUT_H K) w;
           (r, w) = wire_endTransmission W w
       in if r \<noteq> 0
          then (let s = s\<lparr>error := GY521_ERROR_WRITE K\<rparr> in (error s, s, w))
          else
           (let (n, w) = wire_requestFrom W (address s) 6 w
            in if n \<noteq> 6
               then (let s = s\<lparr>error := GY521_ERROR_READ K\<rparr> in (error s, s, w))
               else
                (let (v, w) = WireRead2 W w; s = s\<lparr>ax := real_of_int (sint v)\<rparr>;
                     (v, w) = WireRead2 W w; s = s\<lparr>ay := real_of_int (sint v)\<rparr>;
                     (v, w) = WireRead2 W w; s = s\<lparr>az := real_of_int (sint v)\<rparr>;
                     s = s\<lparr>ax := ax s * raw2g s\<rparr>;
                     s = s\<lparr>ay := ay s * raw2g s\<rparr>;
                     s = s\<lparr>az := az s * raw2g s\<rparr>;
                     s = s\<lparr>ax := ax s + axe s\<rparr>;
                     s = s\<lparr>ay := ay s + aye s\<rparr>;
                     s = s\<lparr>az := az s + aze s\<rparr>;
                     ax2 = ax s * ax s;
                     ay2 = ay s * ay s;
                     az2 = az s * az s;
                     s = s\<lparr>aax := fmul (fatan (fdiv (ay s) (sqrt (ax2 + az2)))) (Finite RAD2DEGREES)\<rparr>;
                     s = s\<lparr>aay := fmul (fatan (fdiv (- 1.0 * ax s) (sqrt (ay2 + az2)))) (Finite RAD2DEGREES)\<rparr>;
                     s = s\<lparr>aaz := fmul (fatan (fdiv (az s) (sqrt (ax2 + ay2)))) (Finite RAD2DEGREES)\<rparr>
                 in (GY521_OK, s, w)))))"

definition readGyro ::
  "header \<Rightarrow> 'w TwoWire \<Rightarrow> 32 word \<Rightarrow> 32 word \<Rightarrow> gy521 \<Rightarrow> 'w \<Rightarrow> 16 word \<times> gy521 \<times> 'w" where
  "readGyro K W ms us s w =
    (if throttle s \<and> ms - lastTime s < ucast (throttleTime s)
     then (GY521_THROTTLED K, s, w)
     else
      (let s = s\<lparr>lastTime := ms\<rparr>;
           w = wire_beginTransmission W (address s) w;
           w = wire_write W (GY521_GYRO_XOUT_H K) w;
           (r, w) = wire_endTransmission W w
       in if r \<noteq> 0
          then (let s = s\<lparr>error := GY521_ERROR_WRITE K\<rparr> in (error s, s, w))
          else
           (let (n, w) = wire_requestFrom W (address s) 6 w
            in if n \<noteq> 6
               then (let s = s\<lparr>error := GY521_ERROR_READ K\<rparr> in (error s, s, w))
               else
                (let (v, w) = WireRead2 W w; s = s\<lparr>gx := real_of_int (sint v)\<rparr>;
                     (v, w) = WireRead2 W w; s = s\<lparr>gy := real_of_int (sint v)\<rparr>;
                     (v, w) = WireRead2 W w; s = s\<lparr>gz := real_of_int (sint v)\<rparr>;
                     duration = real (unat (us - lastMicros s)) * 0.000001;
                     s = s\<lparr>lastMicros := us\<rparr>;
                     s = s\<lparr>gx := gx s * raw2dps s\<rparr>;
                     s = s\<lparr>gy := gy s * raw2dps s\<rparr>;
                     s = s\<lparr>gz := gz s * raw2dps s\<rparr>;
                     s = s\<lparr>gx := gx s + gxe s\<rparr>;
                     s = s\<lparr>gy := gy s + gye s\<rparr>;
                     s = s\<lparr>gz := gz s + gze s\<rparr>;
                     s = s\<lparr>gax := gax s + gx s * duration\<rparr>;
                     s = s\<lparr>gay := gay s + gy s * duration\<rparr>;
                     s = s\<lparr>gaz := gaz s + gz s * duration\<rparr>
                 in (GY521_OK, s, w)))))"

definition readTemperature ::
  "header \<Rightarrow> 'w TwoWire \<Rightarrow> gy521 \<Rightarrow> 'w \<Rightarrow> 16 word \<times> gy521 \<times> 'w" where
  "readTemperature K W s w =
    (let w = wire_beginTransmission W (address s) w;
         w = wire_write W (GY521_TEMP_OUT_H K) w;
         (r, w) = wire_endTransmission W w
     in if r \<noteq> 0
        then (let s = s\<lparr>error := GY521_ERROR_WRITE K\<rparr> in (error s, s, w))
        else
         (let (n, w) = wire_requestFrom W (address s) 2 w
          in if n \<noteq> 2
             then (let s = s\<lparr>error := GY521_ERROR_READ K\<rparr> in (error s, s, w))
             else
              (let (v, w) = WireRead2 W w; s = s\<lparr>temperature := real_of_int (sint v)\<rparr>
               in (GY521_OK, s, w))))"

subsection \<open>Sensitivity configuration\<close>

definition setAccelSensitivity ::
  "header \<Rightarrow> 'w TwoWire \<Rightarrow> 8 word \<Rightarrow> gy521 \<Rightarrow> 'w \<Rightarrow> bool \<times> gy521 \<times> 'w" where
  "setAccelSensitivity K W as s w =
    (let s = s\<lparr>afs := as\<rparr>;
         s = (if afs s > 3 then s\<lparr>afs := 3\<rparr> else s);
         (val, s, w) = getRegister K W (GY521_ACCEL_CONFIG K) s w
     in if error s \<noteq> 0 then (False, s, w)
        else if drop_bit 3 val AND 3 \<noteq> afs s
        then
         (let val = val AND 0xE7;
              val = val OR push_bit 3 (afs s);
              (r, s, w) = setRegister K W (GY521_ACCEL_CONFIG K) val s w
          in if r \<noteq> ucast GY521_OK then (False, s, w)
             else
              (let s = s\<lparr>raw2g := real_of_int (push_bit (unat (afs s)) 1) * RAW2G_FACTOR\<rparr>
               in (True, s, w)))
        else
         (let s = s\<lparr>raw2g := real_of_int (push_bit (unat (afs s)) 1) * RAW2G_FACTOR\<rparr>
          in (True, s, w)))"

definition getAccelSensitivity ::
  "header \<Rightarrow> 'w TwoWire \<Rightarrow> gy521 \<Rightarrow> 'w \<Rightarrow> 8 word \<times> gy521 \<times> 'w" where
  "getAccelSensitivity K W s w =
    (let (val, s, w) = getRegister K W (GY521_ACCEL_CONFIG K) s w
     in if error s \<noteq> GY521_OK then (ucast (error s), s, w)
        else (let s = s\<lparr>afs := drop_bit 3 val AND 3\<rparr> in (afs s, s, w)))"

definition setGyroSensitivity ::
  "header \<Rightarrow> 'w TwoWire \<Rightarrow> 8 word \<Rightarrow> gy521 \<Rightarrow> 'w \<Rightarrow> bool \<times> gy521 \<times> 'w" where
  "setGyroSensitivity K W gs s w =
    (let s = s\<lparr>gfs := gs\<rparr>;
         s = (if gfs s > 3 then s\<lparr>gfs := 3\<rparr> else s);
         (val, s, w) = getRegister K W (GY521_GYRO_CONFIG K) s w
     in if error s \<noteq> 0 then (False, s, w)
        else if drop_bit 3 val AND 3 \<noteq> gfs s
        then
         (let val = val AND 0xE7;
              val = val OR push_bit 3 (gfs s);
              (r, s, w) = setRegister K W (GY521_GYRO_CONFIG K) val s w
          in if r \<noteq> ucast GY521_OK then (False, s, w)
             else
              (let s = s\<lparr>raw2dps := real_of_int (push_bit (unat (gfs s)) 1) * RAW2DPS_FACTOR\<rparr>
               in (True, s, w)))
        else
         (let s = s\<lparr>raw2dps := real_of_int (push_bit (unat (gfs s)) 1) * RAW2DPS_FACTOR\<rparr>
          in (True, s, w)))"

definition getGyroSensitivity ::
  "header \<Rightarrow> 'w TwoWire \<Rightarrow> gy521 \<Rightarrow> 'w \<Rightarrow> 8 word \<times> gy521 \<times> 'w" where
  "getGyroSensitivity K W s w =
    (let (val, s, w) = getRegister K W (GY521_GYRO_CONFIG K) s w
     in if error s \<noteq> GY521_OK then (ucast (error s), s, w)
        else (let s = s\<lparr>gfs := drop_bit 3 val AND 3\<rparr> in (gfs s, s, w)))"

section \<open>Vocabulary for the properties\<close>

text \<open>
  The register-select transaction that opens every read: begin, one byte, end. Its
  first component is the status that \<open>endTransmission\<close> returns.
\<close>

definition select_register :: "'w TwoWire \<Rightarrow> 8 word \<Rightarrow> 8 word \<Rightarrow> 'w \<Rightarrow> 8 word \<times> 'w" where
  "select_register W addr reg w =
    wire_endTransmission W (wire_write W reg (wire_beginTransmission W addr w))"

text \<open>The burst request that follows it, for \<open>n\<close> bytes.\<close>

definition burst_request ::
  "'w TwoWire \<Rightarrow> 8 word \<Rightarrow> 8 word \<Rightarrow> 8 word \<Rightarrow> 'w \<Rightarrow> 8 word \<times> 'w" where
  "burst_request W addr reg n w = wire_requestFrom W addr n (snd (select_register W addr reg w))"

text \<open>
  The bus serves a read of \<open>n\<close> bytes at \<open>reg\<close>: the select is acknowledged and exactly
  \<open>n\<close> bytes arrive.
\<close>

definition burst_ok :: "'w TwoWire \<Rightarrow> 8 word \<Rightarrow> 8 word \<Rightarrow> 8 word \<Rightarrow> 'w \<Rightarrow> bool" where
  "burst_ok W addr reg n w =
    (fst (select_register W addr reg w) = 0 \<and> fst (burst_request W addr reg n w) = n)"

text \<open>
  The bus after \<open>k\<close> words have been decoded, and \<open>burst_word \<dots> k\<close>, the word decoded
  from the burst after \<open>k\<close> earlier ones: in the full read the words 0, 1, 2 are the raw
  accelerations X, Y, Z, word 3 is the raw temperature and the words 4, 5, 6 are the raw
  angular rates X, Y, Z; in the partial reads the words 0, 1, 2 are X, Y, Z.
\<close>

fun skip_words :: "'w TwoWire \<Rightarrow> nat \<Rightarrow> 'w \<Rightarrow> 'w" where
  "skip_words W 0 w = w"
| "skip_words W (Suc k) w = skip_words W k (snd (WireRead2 W w))"

definition burst_word ::
  "'w TwoWire \<Rightarrow> 8 word \<Rightarrow> 8 word \<Rightarrow> 8 word \<Rightarrow> nat \<Rightarrow> 'w \<Rightarrow> 16 word" where
  "burst_word W addr reg n k w =
    fst (WireRead2 W (skip_words W k (snd (burst_request W addr reg n w))))"

text \<open>The status codes of a header are usable when those that report a failure or a skip differ from \<open>GY521_OK\<close>.\<close>

definition status_codes_ok :: "header \<Rightarrow> bool" where
  "status_codes_ok K =
    (GY521_THROTTLED K \<noteq> GY521_OK \<and> GY521_ERROR_READ K \<noteq> GY521_OK \<and>
     GY521_ERROR_WRITE K \<noteq> GY521_OK)"

text \<open>A read is throttled when the flag is set and the elapsed time is under the interval.\<close>

definition throttled :: "gy521 \<Rightarrow> 32 word \<Rightarrow> bool" where
  "throttled s ms = (throttle s \<and> ms - lastTime s < ucast (throttleTime s))"

text \<open>The sensitivity code after clamping to 3.\<close>

definition clamp3 :: "8 word \<Rightarrow> 8 word" where
  "clamp3 c = (if c > 3 then 3 else c)"

section \<open>A fake transport\<close>

text \<open>
  A transport with one device behind it, for running the driver on concrete inputs and
  for counting bus writes. The device has a register file and a register pointer. A
  transmission of one byte sets the pointer, one of two bytes or more stores the second
  byte in the register named by the first and counts as a register write. A request
  delivers the registers from the pointer on. Faults are scripted: \<open>status\<close> lists the
  results of the coming calls of \<open>endTransmission\<close> (0 once the list is used up, and a
  transmission with a status other than 0 has no effect on the device), \<open>counts\<close> lists
  the numbers of bytes the coming requests deliver (the number asked for once the list
  is used up).
\<close>

record fake =
  regs :: "8 word \<Rightarrow> 8 word"
  pointer :: "8 word"
  txbuf :: "8 word list"
  rxbuf :: "8 word list"
  status :: "8 word list"
  counts :: "8 word list"
  writes :: nat

definition fake_beginTransmission :: "8 word \<Rightarrow> fake \<Rightarrow> fake" where
  "fake_beginTransmission addr f = f\<lparr>txbuf := []\<rparr>"

definition fake_write :: "8 word \<Rightarrow> fake \<Rightarrow> fake" where
  "fake_write b f = f\<lparr>txbuf := txbuf f @ [b]\<rparr>"

definition fake_endTransmission :: "fake \<Rightarrow> 8 word \<times> fake" where
  "fake_endTransmission f =
    (let st = (case status f of [] \<Rightarrow> 0 | c # _ \<Rightarrow> c);
         f = f\<lparr>status := tl (status f)\<rparr>;
         f = (if 2 \<le> length (txbuf f) then f\<lparr>writes := Suc (writes f)\<rparr> else f)
     in if st \<noteq> 0 then (st, f)
        else (case txbuf f of
                [] \<Rightarrow> (0, f)
              | [r] \<Rightarrow> (0, f\<lparr>pointer := r\<rparr>)
              | r # v # _ \<Rightarrow> (0, f\<lparr>regs := (regs f)(r := v)\<rparr>)))"

fun registers_from :: "(8 word \<Rightarrow> 8 word) \<Rightarrow> 8 word \<Rightarrow> nat \<Rightarrow> 8 word list" where
  "registers_from m p 0 = []"
| "registers_from m p (Suc n) = m p # registers_from m (p + 1) n"

definition fake_requestFrom :: "8 word \<Rightarrow> 8 word \<Rightarrow> fake \<Rightarrow> 8 word \<times> fake" where
  "fake_requestFrom addr n f =
    (let k = (case counts f of [] \<Rightarrow> n | c # _ \<Rightarrow> c);
         f = f\<lparr>counts := tl (counts f)\<rparr>;
         f = f\<lparr>rxbuf := registers_from (regs f) (pointer f) (unat k)\<rparr>
     in (k, f))"

definition fake_read :: "fake \<Rightarrow> int \<times> fake" where
  "fake_read f = (case rxbuf f of [] \<Rightarrow> (- 1, f) | b # bs \<Rightarrow> (uint b, f\<lparr>rxbuf := bs\<rparr>))"

definition Fake :: "fake TwoWire" where
  "Fake =
    \<lparr>wire_beginTransmission = fake_beginTransmission,
     wire_write = fake_write,
     wire_endTransmission = fake_endTransmission,
     wire_requestFrom = fake_requestFrom,
     wire_read = fake_read\<rparr>"

subsection \<open>Concrete inputs\<close>

text \<open>
  A header instance for the evaluations: the register addresses of the MPU-6050 register
  map, a default throttle interval of 10 ms, and the status codes 1, -1 and -2.
\<close>

definition example_header :: header where
  "example_header =
    \<lparr>GY521_THROTTLE_TIME = 10,
     GY521_THROTTLED = 1,
     GY521_ERROR_READ = - 1,
     GY521_ERROR_WRITE = - 2,
     GY521_PWR_MGMT_1 = 0x6B,
     GY521_ACCEL_CONFIG = 0x1C,
     GY521_GYRO_CONFIG = 0x1B,
     GY521_ACCEL_XOUT_H = 0x3B,
     GY521_TEMP_OUT_H = 0x41,
     GY521_GYRO_XOUT_H = 0x43\<rparr>"

text \<open>
  A driver at address 0x68 with throttling enabled at 10 ms, both sensitivity codes 0,
  no stored error, and every sample, angle and offset 0.
\<close>

definition example_driver :: gy521 where
  "example_driver =
    \<lparr>address = 0x68, throttle = True, throttleTime = 10, lastTime = 0, lastMicros = 0,
     error = 0, afs = 0, raw2g = RAW2G_FACTOR,
     ax = 0, ay = 0, az = 0, aax = Finite 0, aay = Finite 0, aaz = Finite 0,
     gfs = 0, raw2dps = RAW2DPS_FACTOR,
     gx = 0, gy = 0, gz = 0, gax = 0, gay = 0, gaz = 0,
     pitch = Finite 0, roll = Finite 0, yaw = 0, temperature = 0,
     axe = 0, aye = 0, aze = 0, gxe = 0, gye = 0, gze = 0\<rparr>"

text \<open>
  A device that answers every transaction: all registers 0 except the X and Z
  accelerations (0x4000 = 16384, that is 1 g at sensitivity 0) and the angular rates (X
  and Z 0x0083 = 131, that is 1 degree per second at sensitivity 0, and Y 0x0106 = 262).
  The temperature registers 0x41 and 0x42 hold the raw value 0.
\<close>

definition example_device :: fake where
  "example_device =
    \<lparr>regs = (\<lambda>r. 0)(0x3B := 0x40, 0x3F := 0x40, 0x44 := 0x83, 0x45 := 0x01, 0x46 := 0x06,
       0x48 := 0x83),
     pointer = 0, txbuf = [], rxbuf = [], status = [], counts = [], writes = 0\<rparr>"

text \<open>The same device when it does not acknowledge the next transmission (status 2).\<close>

definition example_device_nack :: fake where
  "example_device_nack = example_device\<lparr>status := [2]\<rparr>"

text \<open>The same device when it delivers no byte to the next request.\<close>

definition example_device_short :: fake where
  "example_device_short = example_device\<lparr>counts := [0]\<rparr>"

text \<open>
  The driver after a full read of the device at 100 ms and 1 s on the clocks, and after a
  gyro-only read at the same times.
\<close>

definition example_after_read :: gy521 where
  "example_after_read =
    example_driver\<lparr>lastTime := 100, lastMicros := 1000000, ax := 1, az := 1,
      aay := Finite (- 45), aaz := Finite 45, temperature := 36.53,
      gx := 1, gy := 2, gz := 1, gax := 1, gay := 2, gaz := 1,
      pitch := Finite 0.12, roll := Finite 0.96, yaw := 1\<rparr>"

definition example_after_readGyro :: gy521 where
  "example_after_readGyro =
    example_driver\<lparr>lastTime := 100, lastMicros := 1000000,
      gx := 1, gy := 2, gz := 1, gax := 1, gay := 2, gaz := 1\<rparr>"

text \<open>
  Two devices whose tilt quotients have a zero divisor. On the first only the X
  acceleration is not 0 (1 g), on the second all accelerations are 0; the angular rates
  are those of the example device. After a full read at 100 ms and 1 s the floats hold:
  for the first device the angle \<open>aay\<close> = atan(-inf) in degrees = -90 and pitch =
  0.96 * 2 + 0.04 * (-90) = -1.68; for the second all tilt angles, pitch and roll are
  NaN.
\<close>

definition example_device_x :: fake where
  "example_device_x = example_device\<lparr>regs := (regs example_device)(0x3F := 0)\<rparr>"

definition example_device_flat :: fake where
  "example_device_flat = example_device\<lparr>regs := (regs example_device)(0x3B := 0, 0x3F := 0)\<rparr>"

definition example_after_read_x :: gy521 where
  "example_after_read_x =
    example_driver\<lparr>lastTime := 100, lastMicros := 1000000, ax := 1,
      aay := Finite (- 90), temperature := 36.53,
      gx := 1, gy := 2, gz := 1, gax := 1, gay := 2, gaz := 1,
      pitch := Finite (- 1.68), roll := Finite 0.96, yaw := 1\<rparr>"

definition example_after_read_flat :: gy521 where
  "example_after_read_flat =
    example_driver\<lparr>lastTime := 100, lastMicros := 1000000,
      aax := NaN, aay := NaN, aaz := NaN, temperature := 36.53,
      gx := 1, gy := 2, gz := 1, gax := 1, gay := 2, gaz := 1,
      pitch := NaN, roll := NaN, yaw := 1\<rparr>"

text \<open>
  A device on which every raw acceleration is 0x4000 = 16384 and every raw angular rate
  is 0x0083 = 131.
\<close>

definition example_device_unit :: fake where
  "example_device_unit =
    example_device\<lparr>regs := (\<lambda>r. 0)(0x3B := 0x40, 0x3D := 0x40, 0x3F := 0x40,
      0x44 := 0x83, 0x46 := 0x83, 0x48 := 0x83)\<rparr>"

text \<open>
  The driver after \<open>setAccelSensitivity(2)\<close> and after \<open>setGyroSensitivity(2)\<close>, and the
  device after the write of 0x10 to the configuration register at \<open>reg\<close>.
\<close>

definition example_after_setAccel :: gy521 where
  "example_after_setAccel = example_driver\<lparr>afs := 2, raw2g := 4 * RAW2G_FACTOR\<rparr>"

definition example_after_setGyro :: gy521 where
  "example_after_setGyro = example_driver\<lparr>gfs := 2, raw2dps := 4 * RAW2DPS_FACTOR\<rparr>"

definition example_device_configured :: "8 word \<Rightarrow> fake" where
  "example_device_configured reg =
    example_device\<lparr>regs := (regs example_device)(reg := 0x10), pointer := reg,
      txbuf := [reg, 0x10], writes := 1\<rparr>"

definition example_device_unit_configured :: "8 word \<Rightarrow> fake" where
  "example_device_unit_configured reg =
    example_device_unit\<lparr>regs := (regs example_device_unit)(reg := 0x10), pointer := reg,
      txbuf := [reg, 0x10], writes := 1\<rparr>"

section \<open>Auxiliary facts\<close>

lemmas fake_defs = Fake_def fake_beginTransmission_def fake_write_def fake_endTransmission_def
  fake_requestFrom_def fake_read_def

lemmas bus_defs = burst_ok_def burst_word_def burst_request_def select_register_def

lemmas example_defs = example_header_def example_driver_def example_device_def
  example_device_nack_def example_device_short_def example_after_read_def
  example_after_readGyro_def example_after_setAccel_def example_after_setGyro_def
  example_device_configured_def example_device_x_def example_device_flat_def
  example_after_read_x_def example_after_read_flat_def example_device_unit_def
  example_device_unit_configured_def

lemma fdiv_simps [simp]:
  "y \<noteq> 0 \<Longrightarrow> fdiv x y = Finite (x / y)"
  "fdiv 0 0 = NaN"
  "0 < x \<Longrightarrow> fdiv x 0 = PosInf"
  "x < 0 \<Longrightarrow> fdiv x 0 = NegInf"
  by (simp_all add: fdiv_def)

lemma fatan_simps [simp]:
  "fatan (Finite x) = Finite (arctan x)"
  "fatan PosInf = Finite (pi / 2)"
  "fatan NegInf = Finite (- (pi / 2))"
  "fatan NaN = NaN"
  by (simp_all add: fatan_def)

lemma fmul_simps [simp]:
  "fmul (Finite x) (Finite y) = Finite (x * y)"
  "fmul NaN b = NaN"
  "fmul a NaN = NaN"
  by (simp_all add: fmul_def split: fval.splits)

lemma fadd_simps [simp]:
  "fadd (Finite x) (Finite y) = Finite (x + y)"
  "fadd NaN b = NaN"
  "fadd a NaN = NaN"
  by (simp_all add: fadd_def split: fval.splits)

lemma skip_words_numeral [simp]:
  "skip_words W (numeral k) w = skip_words W (pred_numeral k) (snd (WireRead2 W w))"
  by (simp add: numeral_eq_Suc)

lemma registers_from_numeral [simp]:
  "registers_from m p (numeral k) = m p # registers_from m (p + 1) (pred_numeral k)"
  by (simp add: numeral_eq_Suc)

lemma example_status_codes_ok: "status_codes_ok example_header"
  by (simp add: status_codes_ok_def example_header_def GY521_OK_def)

subsection \<open>The driver on the example device\<close>

lemma read_example:
  "read example_header Fake 100 1000000 example_driver example_device =
    (GY521_OK, example_after_read, example_device\<lparr>pointer := 0x3B, txbuf := [0x3B]\<rparr>)"
  by (simp add: read_def example_defs fake_defs WireRead2_def Let_def
      RAW2DPS_FACTOR_def RAW2G_FACTOR_def RAD2DEGREES_def arctan_minus arctan_one)

lemma read_x_example:
  "read example_header Fake 100 1000000 example_driver example_device_x =
    (GY521_OK, example_after_read_x, example_device_x\<lparr>pointer := 0x3B, txbuf := [0x3B]\<rparr>)"
  by (simp add: read_def example_defs fake_defs WireRead2_def Let_def
      RAW2DPS_FACTOR_def RAW2G_FACTOR_def RAD2DEGREES_def)

lemma read_flat_example:
  "read example_header Fake 100 1000000 example_driver example_device_flat =
    (GY521_OK, example_after_read_flat,
     example_device_flat\<lparr>pointer := 0x3B, txbuf := [0x3B]\<rparr>)"
  by (simp add: read_def example_defs fake_defs WireRead2_def Let_def
      RAW2DPS_FACTOR_def RAW2G_FACTOR_def RAD2DEGREES_def)

lemma readGyro_example:
  "readGyro example_header Fake 100 1000000 example_driver example_device =
    (GY521_OK, example_after_readGyro, example_device\<lparr>pointer := 0x43, txbuf := [0x43]\<rparr>)"
  by (simp add: readGyro_def example_defs fake_defs WireRead2_def Let_def RAW2DPS_FACTOR_def)

lemma readTemperature_example:
  "readTemperature example_header Fake example_after_read example_device =
    (GY521_OK, example_after_read\<lparr>temperature := 0\<rparr>,
     example_device\<lparr>pointer := 0x41, txbuf := [0x41]\<rparr>)"
  by (simp add: readTemperature_def example_defs fake_defs WireRead2_def Let_def)

lemma readTemperature_nack_example:
  "readTemperature example_header Fake example_driver example_device_nack =
    (GY521_ERROR_WRITE example_header,
     example_driver\<lparr>error := GY521_ERROR_WRITE example_header\<rparr>,
     example_device\<lparr>txbuf := [0x41]\<rparr>)"
  by (simp add: readTemperature_def example_defs fake_defs Let_def)

lemma read_nack_example:
  "read example_header Fake 100 0 example_driver example_device_nack =
    (GY521_ERROR_WRITE example_header,
     example_driver\<lparr>lastTime := 100, error := GY521_ERROR_WRITE example_header\<rparr>,
     example_device\<lparr>txbuf := [0x3B]\<rparr>)"
  by (simp add: read_def example_defs fake_defs Let_def)

lemma readAccel_short_example:
  "readAccel example_header Fake 100 example_driver example_device_short =
    (GY521_ERROR_READ example_header,
     example_driver\<lparr>lastTime := 100, error := GY521_ERROR_READ example_header\<rparr>,
     example_device\<lparr>pointer := 0x3B, txbuf := [0x3B]\<rparr>)"
  by (simp add: readAccel_def example_defs fake_defs Let_def)

lemma setAccelSensitivity_example:
  "setAccelSensitivity example_header Fake 2 example_driver example_device =
    (True, example_after_setAccel, example_device_configured 0x1C)"
  by (simp add: setAccelSensitivity_def getRegister_def setRegister_def example_defs fake_defs
      Let_def GY521_OK_def)

lemma setAccelSensitivity_again_example:
  "setAccelSensitivity example_header Fake 2 example_after_setAccel (example_device_configured 0x1C) =
    (True, example_after_setAccel, (example_device_configured 0x1C)\<lparr>txbuf := [0x1C]\<rparr>)"
  by (simp add: setAccelSensitivity_def getRegister_def setRegister_def example_defs fake_defs
      Let_def GY521_OK_def)

lemma setGyroSensitivity_example:
  "setGyroSensitivity example_header Fake 2 example_driver example_device =
    (True, example_after_setGyro, example_device_configured 0x1B)"
  by (simp add: setGyroSensitivity_def getRegister_def setRegister_def example_defs fake_defs
      Let_def GY521_OK_def)

lemma setGyroSensitivity_again_example:
  "setGyroSensitivity example_header Fake 2 example_after_setGyro (example_device_configured 0x1B) =
    (True, example_after_setGyro, (example_device_configured 0x1B)\<lparr>txbuf := [0x1B]\<rparr>)"
  by (simp add: setGyroSensitivity_def getRegister_def setRegister_def example_defs fake_defs
      Let_def GY521_OK_def)

lemma setAccelSensitivity_unit_example:
  "setAccelSensitivity example_header Fake 2 example_driver example_device_unit =
    (True, example_after_setAccel, example_device_unit_configured 0x1C)"
  by (simp add: setAccelSensitivity_def getRegister_def setRegister_def example_defs fake_defs
      Let_def GY521_OK_def)

lemma setGyroSensitivity_unit_example:
  "setGyroSensitivity example_header Fake 2 example_driver example_device_unit =
    (True, example_after_setGyro, example_device_unit_configured 0x1B)"
  by (simp add: setGyroSensitivity_def getRegister_def setRegister_def example_defs fake_defs
      Let_def GY521_OK_def)

subsection \<open>The tilt angle of a quotient\<close>

text \<open>
  The value of \<open>atan(x / d) * RAD2DEGREES\<close> in the floats, for finite \<open>x\<close> and a divisor
  \<open>d\<close> that is a square root: the angle in degrees when \<open>d\<close> is not 0, and otherwise
  90, -90 or NaN as \<open>x\<close> is positive, negative or 0.
\<close>

lemma tilt_angle_cases:
  "fmul (fatan (fdiv x d)) (Finite RAD2DEGREES) =
    (if d \<noteq> 0 then Finite (arctan (x / d) * RAD2DEGREES)
     else if x = 0 then NaN
     else if 0 < x then Finite 90 else Finite (- 90))"
  by (simp add: RAD2DEGREES_def not_less less_le)

subsection \<open>Frame of reset and of the temperature-only read\<close>

lemma reset_accumulators:
  "gax (reset K s) = gax s" "gay (reset K s) = gay s" "gaz (reset K s) = gaz s"
  by (simp_all add: reset_def setThrottleTime_def)

lemma reset_zeroes:
  "ax (reset K s) = 0" "ay (reset K s) = 0" "az (reset K s) = 0"
  "aax (reset K s) = Finite 0" "aay (reset K s) = Finite 0" "aaz (reset K s) = Finite 0"
  "gx (reset K s) = 0" "gy (reset K s) = 0" "gz (reset K s) = 0"
  "pitch (reset K s) = Finite 0" "roll (reset K s) = Finite 0" "yaw (reset K s) = 0"
  by (simp_all add: reset_def setThrottleTime_def)

lemma readTemperature_raw:
  "temperature (fst (snd (readTemperature K W s w))) =
    (if burst_ok W (address s) (GY521_TEMP_OUT_H K) 2 w
     then real_of_int (sint (burst_word W (address s) (GY521_TEMP_OUT_H K) 2 0 w))
     else temperature s)"
  by (simp add: readTemperature_def bus_defs Let_def case_prod_beta)

subsection \<open>Register access and the sensitivity setters\<close>

lemma getRegister_frame:
  "getRegister K W reg s w = (v, s', w') \<Longrightarrow> s' = s\<lparr>error := error s'\<rparr>"
  by (auto simp add: getRegister_def Let_def case_prod_beta split: if_splits)

lemma setRegister_frame:
  "setRegister K W reg v s w = (r, s', w') \<Longrightarrow> s' = s\<lparr>error := error s'\<rparr>"
  by (auto simp add: setRegister_def Let_def case_prod_beta split: if_splits)

lemma getRegister_fails:
  assumes "\<not> burst_ok W (address s) reg 1 w" and "getRegister K W reg s w = (v, s', w')"
  shows "error s' = GY521_ERROR_WRITE K \<or> error s' = GY521_ERROR_READ K"
  using assms by (auto simp add: getRegister_def bus_defs Let_def case_prod_beta split: if_splits)

lemma getRegister_error_sticky:
  assumes "GY521_ERROR_READ K \<noteq> GY521_OK" "GY521_ERROR_WRITE K \<noteq> GY521_OK" "error s \<noteq> 0"
    and "getRegister K W reg s w = (v, s', w')"
  shows "error s' \<noteq> 0"
  using assms
  by (auto simp add: getRegister_def GY521_OK_def Let_def case_prod_beta split: if_splits)

text \<open>
  The outcomes of a sensitivity setter, in terms of the register read and the register
  write it may issue.
\<close>

lemma setAccelSensitivity_cases:
  assumes g: "getRegister K W (GY521_ACCEL_CONFIG K) (s\<lparr>afs := clamp3 c\<rparr>) w = (val, sa, wa)"
    and t: "setRegister K W (GY521_ACCEL_CONFIG K) ((val AND 0xE7) OR push_bit 3 (clamp3 c)) sa wa
              = (r, sb, wb)"
  shows "setAccelSensitivity K W c s w =
    (if error sa \<noteq> 0 then (False, sa, wa)
     else if drop_bit 3 val AND 3 \<noteq> clamp3 c
     then (if r \<noteq> 0 then (False, sb, wb)
           else (True, sb\<lparr>raw2g := 2 ^ unat (clamp3 c) * RAW2G_FACTOR\<rparr>, wb))
     else (True, sa\<lparr>raw2g := 2 ^ unat (clamp3 c) * RAW2G_FACTOR\<rparr>, wa))"
proof -
  have sa: "sa = s\<lparr>afs := clamp3 c, error := error sa\<rparr>"
    using getRegister_frame [OF g] by simp
  have sb: "sb = sa\<lparr>error := error sb\<rparr>"
    using setRegister_frame [OF t] by simp
  have afs_sa: "afs sa = clamp3 c" by (subst sa) simp
  have afs_sb: "afs sb = clamp3 c" by (subst sb) (simp add: afs_sa)
  have s0: "(if afs (s\<lparr>afs := c\<rparr>) > 3 then s\<lparr>afs := c\<rparr>\<lparr>afs := 3\<rparr> else s\<lparr>afs := c\<rparr>)
      = s\<lparr>afs := clamp3 c\<rparr>"
    by (simp add: clamp3_def)
  show ?thesis
    unfolding setAccelSensitivity_def Let_def s0 g
    by (simp add: afs_sa t afs_sb GY521_OK_def)
qed

lemma setGyroSensitivity_cases:
  assumes g: "getRegister K W (GY521_GYRO_CONFIG K) (s\<lparr>gfs := clamp3 c\<rparr>) w = (val, sa, wa)"
    and t: "setRegister K W (GY521_GYRO_CONFIG K) ((val AND 0xE7) OR push_bit 3 (clamp3 c)) sa wa
              = (r, sb, wb)"
  shows "setGyroSensitivity K W c s w =
    (if error sa \<noteq> 0 then (False, sa, wa)
     else if drop_bit 3 val AND 3 \<noteq> clamp3 c
     then (if r \<noteq> 0 then (False, sb, wb)
           else (True, sb\<lparr>raw2dps := 2 ^ unat (clamp3 c) * RAW2DPS_FACTOR\<rparr>, wb))
     else (True, sa\<lparr>raw2dps := 2 ^ unat (clamp3 c) * RAW2DPS_FACTOR\<rparr>, wa))"
proof -
  have sa: "sa = s\<lparr>gfs := clamp3 c, error := error sa\<rparr>"
    using getRegister_frame [OF g] by simp
  have sb: "sb = sa\<lparr>error := error sb\<rparr>"
    using setRegister_frame [OF t] by simp
  have gfs_sa: "gfs sa = clamp3 c" by (subst sa) simp
  have gfs_sb: "gfs sb = clamp3 c" by (subst sb) (simp add: gfs_sa)
  have s0: "(if gfs (s\<lparr>gfs := c\<rparr>) > 3 then s\<lparr>gfs := c\<rparr>\<lparr>gfs := 3\<rparr> else s\<lparr>gfs := c\<rparr>)
      = s\<lparr>gfs := clamp3 c\<rparr>"
    by (simp add: clamp3_def)
  show ?thesis
    unfolding setGyroSensitivity_def Let_def s0 g
    by (simp add: gfs_sa t gfs_sb GY521_OK_def)
qed

text \<open>What a successful setter leaves behind.\<close>

lemma setAccelSensitivity_True:
  assumes "setAccelSensitivity K W c s w = (True, s1, w1)"
  shows "raw2g s1 = 2 ^ unat (clamp3 c) * RAW2G_FACTOR" and "axe s1 = axe s"
proof -
  obtain val sa wa where g:
    "getRegister K W (GY521_ACCEL_CONFIG K) (s\<lparr>afs := clamp3 c\<rparr>) w = (val, sa, wa)"
    by (metis prod_cases3)
  obtain r sb wb where t:
    "setRegister K W (GY521_ACCEL_CONFIG K) ((val AND 0xE7) OR push_bit 3 (clamp3 c)) sa wa
      = (r, sb, wb)"
    by (metis prod_cases3)
  have sa: "axe sa = axe s" by (subst getRegister_frame [OF g]) simp
  have sb: "axe sb = axe sa" by (subst setRegister_frame [OF t]) simp
  show "raw2g s1 = 2 ^ unat (clamp3 c) * RAW2G_FACTOR"
    using assms unfolding setAccelSensitivity_cases [OF g t] by (auto split: if_splits)
  show "axe s1 = axe s"
    using assms sa sb unfolding setAccelSensitivity_cases [OF g t] by (auto split: if_splits)
qed

lemma setGyroSensitivity_True:
  assumes "setGyroSensitivity K W c s w = (True, s1, w1)"
  shows "raw2dps s1 = 2 ^ unat (clamp3 c) * RAW2DPS_FACTOR" and "gxe s1 = gxe s"
proof -
  obtain val sa wa where g:
    "getRegister K W (GY521_GYRO_CONFIG K) (s\<lparr>gfs := clamp3 c\<rparr>) w = (val, sa, wa)"
    by (metis prod_cases3)
  obtain r sb wb where t:
    "setRegister K W (GY521_GYRO_CONFIG K) ((val AND 0xE7) OR push_bit 3 (clamp3 c)) sa wa
      = (r, sb, wb)"
    by (metis prod_cases3)
  have sa: "gxe sa = gxe s" by (subst getRegister_frame [OF g]) simp
  have sb: "gxe sb = gxe sa" by (subst setRegister_frame [OF t]) simp
  show "raw2dps s1 = 2 ^ unat (clamp3 c) * RAW2DPS_FACTOR"
    using assms unfolding setGyroSensitivity_cases [OF g t] by (auto split: if_splits)
  show "gxe s1 = gxe s"
    using assms sa sb unfolding setGyroSensitivity_cases [OF g t] by (auto split: if_splits)
qed

text \<open>What a setter leaves behind when the read of the configuration register fails.\<close>

lemma setAccelSensitivity_read_fails:
  assumes k: "GY521_ERROR_READ K \<noteq> GY521_OK" "GY521_ERROR_WRITE K \<noteq> GY521_OK"
    and b: "\<not> burst_ok W (address s) (GY521_ACCEL_CONFIG K) 1 w"
  shows "fst (setAccelSensitivity K W c s w) = False \<and>
         raw2g (fst (snd (setAccelSensitivity K W c s w))) = raw2g s \<and>
         afs (fst (snd (setAccelSensitivity K W c s w))) = clamp3 c"
proof -
  obtain val sa wa where g:
    "getRegister K W (GY521_ACCEL_CONFIG K) (s\<lparr>afs := clamp3 c\<rparr>) w = (val, sa, wa)"
    by (metis prod_cases3)
  obtain r sb wb where t:
    "setRegister K W (GY521_ACCEL_CONFIG K) ((val AND 0xE7) OR push_bit 3 (clamp3 c)) sa wa
      = (r, sb, wb)"
    by (metis prod_cases3)
  have "error sa = GY521_ERROR_WRITE K \<or> error sa = GY521_ERROR_READ K"
    using b by (intro getRegister_fails [OF _ g]) simp
  then have e: "error sa \<noteq> 0" using k by (auto simp add: GY521_OK_def)
  have sa: "raw2g sa = raw2g s" "afs sa = clamp3 c"
    by (subst getRegister_frame [OF g], simp)+
  show ?thesis
    unfolding setAccelSensitivity_cases [OF g t] using e sa by simp
qed

lemma setGyroSensitivity_read_fails:
  assumes k: "GY521_ERROR_READ K \<noteq> GY521_OK" "GY521_ERROR_WRITE K \<noteq> GY521_OK"
    and b: "\<not> burst_ok W (address s) (GY521_GYRO_CONFIG K) 1 w"
  shows "fst (setGyroSensitivity K W c s w) = False \<and>
         raw2dps (fst (snd (setGyroSensitivity K W c s w))) = raw2dps s \<and>
         gfs (fst (snd (setGyroSensitivity K W c s w))) = clamp3 c"
proof -
  obtain val sa wa where g:
    "getRegister K W (GY521_GYRO_CONFIG K) (s\<lparr>gfs := clamp3 c\<rparr>) w = (val, sa, wa)"
    by (metis prod_cases3)
  obtain r sb wb where t:
    "setRegister K W (GY521_GYRO_CONFIG K) ((val AND 0xE7) OR push_bit 3 (clamp3 c)) sa wa
      = (r, sb, wb)"
    by (metis prod_cases3)
  have "error sa = GY521_ERROR_WRITE K \<or> error sa = GY521_ERROR_READ K"
    using b by (intro getRegister_fails [OF _ g]) simp
  then have e: "error sa \<noteq> 0" using k by (auto simp add: GY521_OK_def)
  have sa: "raw2dps sa = raw2dps s" "gfs sa = clamp3 c"
    by (subst getRegister_frame [OF g], simp)+
  show ?thesis
    unfolding setGyroSensitivity_cases [OF g t] using e sa by simp
qed

subsection \<open>The configuration field\<close>

lemma take_bit_2_le3: "(c :: 8 word) \<le> 3 \<Longrightarrow> take_bit 2 c = c"
proof -
  assume "c \<le> 3"
  then have "c < 2 ^ 2" by (simp add: word_le_nat_alt word_less_nat_alt)
  then have "c AND mask 2 = c" by (rule less_mask_eq)
  then show ?thesis by (simp add: take_bit_eq_mask)
qed

text \<open>Bits 3 and 4 of the byte written back hold the code.\<close>

lemma field_after_mask_and_set:
  fixes v c :: "8 word"
  assumes "c \<le> 3"
  shows "drop_bit 3 ((v AND 0xE7) OR push_bit 3 c) AND 3 = c"
proof -
  have "take_bit 2 (drop_bit 3 ((v AND 0xE7) OR push_bit 3 c)) = take_bit 2 c"
  proof (rule bit_word_eqI)
    fix n :: nat
    assume "n < LENGTH(8)"
    consider "n = 0" | "n = 1" | "2 \<le> n" by arith
    then show "bit (take_bit 2 (drop_bit 3 ((v AND 0xE7) OR push_bit 3 c))) n
        = bit (take_bit 2 c) n"
    proof cases
      case 1 then show ?thesis by (simp add: bit_simps)
    next
      case 2 then show ?thesis by (simp add: bit_simps)
    next
      case 3 then show ?thesis by (simp add: bit_simps)
    qed
  qed
  moreover have "(3 :: 8 word) = mask 2" by (simp add: mask_eq_exp_minus_1)
  ultimately show ?thesis using take_bit_2_le3 [OF assms] by (simp add: take_bit_eq_mask)
qed

lemma clamp3_le: "clamp3 c \<le> 3"
  by (simp add: clamp3_def not_less)

subsection \<open>Register access on the fake transport\<close>

lemma fake_getRegister:
  assumes "getRegister K Fake reg s f = (v, s', f')"
  shows "writes f' = writes f" and "regs f' = regs f"
  using assms
  by (auto simp add: getRegister_def fake_defs Let_def case_prod_beta split: list.splits if_splits)

lemma fake_getRegister_val:
  assumes "GY521_ERROR_READ K \<noteq> GY521_OK" "GY521_ERROR_WRITE K \<noteq> GY521_OK"
    and "getRegister K Fake reg s f = (v, s', f')" and "error s' = 0"
  shows "v = regs f reg"
  using assms
  by (auto simp add: getRegister_def fake_defs GY521_OK_def Let_def case_prod_beta
      split: list.splits if_splits)

lemma fake_setRegister:
  assumes "setRegister K Fake reg v s f = (r, s', f')"
  shows "writes f' = Suc (writes f)"
    and "GY521_ERROR_WRITE K \<noteq> GY521_OK \<Longrightarrow> error s' = 0 \<Longrightarrow> regs f' reg = v"
  using assms
  by (auto simp add: setRegister_def fake_defs GY521_OK_def Let_def case_prod_beta
      split: list.splits if_splits)

text \<open>
  One call of a setter on the fake transport issues at most one register write; when
  it issues one, it leaves an error stored or the field in the device equal to the
  clamped code; and it issues none when an error is stored before the call or the field
  in the device already equals the clamped code.
\<close>

lemma fake_setAccelSensitivity:
  assumes k: "GY521_ERROR_READ K \<noteq> GY521_OK" "GY521_ERROR_WRITE K \<noteq> GY521_OK"
    and c: "setAccelSensitivity K Fake c s f = (b, s1, f1)"
  shows "writes f1 = writes f \<or>
         writes f1 = Suc (writes f) \<and>
           (error s1 \<noteq> 0 \<or> drop_bit 3 (regs f1 (GY521_ACCEL_CONFIG K)) AND 3 = clamp3 c)"
    and "error s \<noteq> 0 \<Longrightarrow> writes f1 = writes f \<and> error s1 \<noteq> 0"
    and "drop_bit 3 (regs f (GY521_ACCEL_CONFIG K)) AND 3 = clamp3 c \<Longrightarrow>
           writes f1 = writes f \<and> regs f1 = regs f"
proof -
  obtain val sa fa where g:
    "getRegister K Fake (GY521_ACCEL_CONFIG K) (s\<lparr>afs := clamp3 c\<rparr>) f = (val, sa, fa)"
    by (metis prod_cases3)
  obtain r sb fb where t:
    "setRegister K Fake (GY521_ACCEL_CONFIG K) ((val AND 0xE7) OR push_bit 3 (clamp3 c)) sa fa
      = (r, sb, fb)"
    by (metis prod_cases3)
  note cases = c [unfolded setAccelSensitivity_cases [OF g t]]
  note fg = fake_getRegister [OF g]
  note fs = fake_setRegister [OF t]
  have stored: "error sb = 0 \<Longrightarrow>
      drop_bit 3 (regs fb (GY521_ACCEL_CONFIG K)) AND 3 = clamp3 c"
    using fs(2) [OF k(2)] field_after_mask_and_set [OF clamp3_le] by simp
  show "writes f1 = writes f \<or>
         writes f1 = Suc (writes f) \<and>
           (error s1 \<noteq> 0 \<or> drop_bit 3 (regs f1 (GY521_ACCEL_CONFIG K)) AND 3 = clamp3 c)"
    using cases fg fs(1) stored by (auto split: if_splits)
  show "writes f1 = writes f \<and> error s1 \<noteq> 0" if "error s \<noteq> 0"
  proof -
    have "error sa \<noteq> 0"
      using getRegister_error_sticky [OF k _ g] that by simp
    then show ?thesis using cases fg by simp
  qed
  show "writes f1 = writes f \<and> regs f1 = regs f"
    if "drop_bit 3 (regs f (GY521_ACCEL_CONFIG K)) AND 3 = clamp3 c"
  proof (cases "error sa = 0")
    case True
    then have "val = regs f (GY521_ACCEL_CONFIG K)"
      using fake_getRegister_val [OF k g] by simp
    then show ?thesis using cases fg that True by simp
  next
    case False
    then show ?thesis using cases fg by simp
  qed
qed

lemma fake_setGyroSensitivity:
  assumes k: "GY521_ERROR_READ K \<noteq> GY521_OK" "GY521_ERROR_WRITE K \<noteq> GY521_OK"
    and c: "setGyroSensitivity K Fake c s f = (b, s1, f1)"
  shows "writes f1 = writes f \<or>
         writes f1 = Suc (writes f) \<and>
           (error s1 \<noteq> 0 \<or> drop_bit 3 (regs f1 (GY521_GYRO_CONFIG K)) AND 3 = clamp3 c)"
    and "error s \<noteq> 0 \<Longrightarrow> writes f1 = writes f \<and> error s1 \<noteq> 0"
    and "drop_bit 3 (regs f (GY521_GYRO_CONFIG K)) AND 3 = clamp3 c \<Longrightarrow>
           writes f1 = writes f \<and> regs f1 = regs f"
proof -
  obtain val sa fa where g:
    "getRegister K Fake (GY521_GYRO_CONFIG K) (s\<lparr>gfs := clamp3 c\<rparr>) f = (val, sa, fa)"
    by (metis prod_cases3)
  obtain r sb fb where t:
    "setRegister K Fake (GY521_GYRO_CONFIG K) ((val AND 0xE7) OR push_bit 3 (clamp3 c)) sa fa
      = (r, sb, fb)"
    by (metis prod_cases3)
  note cases = c [unfolded setGyroSensitivity_cases [OF g t]]
  note fg = fake_getRegister [OF g]
  note fs = fake_setRegister [OF t]
  have stored: "error sb = 0 \<Longrightarrow>
      drop_bit 3 (regs fb (GY521_GYRO_CONFIG K)) AND 3 = clamp3 c"
    using fs(2) [OF k(2)] field_after_mask_and_set [OF clamp3_le] by simp
  show "writes f1 = writes f \<or>
         writes f1 = Suc (writes f) \<and>
           (error s1 \<noteq> 0 \<or> drop_bit 3 (regs f1 (GY521_GYRO_CONFIG K)) AND 3 = clamp3 c)"
    using cases fg fs(1) stored by (auto split: if_splits)
  show "writes f1 = writes f \<and> error s1 \<noteq> 0" if "error s \<noteq> 0"
  proof -
    have "error sa \<noteq> 0"
      using getRegister_error_sticky [OF k _ g] that by simp
    then show ?thesis using cases fg by simp
  qed
  show "writes f1 = writes f \<and> regs f1 = regs f"
    if "drop_bit 3 (regs f (GY521_GYRO_CONFIG K)) AND 3 = clamp3 c"
  proof (cases "error sa = 0")
    case True
    then have "val = regs f (GY521_GYRO_CONFIG K)"
      using fake_getRegister_val [OF k g] by simp
    then show ?thesis using cases fg that True by simp
  next
    case False
    then show ?thesis using cases fg by simp
  qed
qed

lemma fake_setAccelSensitivity_twice:
  assumes k: "GY521_ERROR_READ K \<noteq> GY521_OK" "GY521_ERROR_WRITE K \<noteq> GY521_OK"
    and c1: "setAccelSensitivity K Fake c s f = (b1, s1, f1)"
    and c2: "setAccelSensitivity K Fake c s1 f1 = (b2, s2, f2)"
  shows "writes f2 \<le> Suc (writes f)"
proof -
  note first = fake_setAccelSensitivity [OF k c1]
  note second = fake_setAccelSensitivity [OF k c2]
  from first(1) show ?thesis
  proof (elim disjE conjE)
    assume "writes f1 = writes f"
    then show ?thesis using second(1) by auto
  next
    assume w: "writes f1 = Suc (writes f)" and e: "error s1 \<noteq> 0"
    show ?thesis using second(2) [OF e] w by simp
  next
    assume w: "writes f1 = Suc (writes f)"
      and m: "drop_bit 3 (regs f1 (GY521_ACCEL_CONFIG K)) AND 3 = clamp3 c"
    show ?thesis using second(3) [OF m] w by simp
  qed
qed

lemma fake_setGyroSensitivity_twice:
  assumes k: "GY521_ERROR_READ K \<noteq> GY521_OK" "GY521_ERROR_WRITE K \<noteq> GY521_OK"
    and c1: "setGyroSensitivity K Fake c s f = (b1, s1, f1)"
    and c2: "setGyroSensitivity K Fake c s1 f1 = (b2, s2, f2)"
  shows "writes f2 \<le> Suc (writes f)"
proof -
  note first = fake_setGyroSensitivity [OF k c1]
  note second = fake_setGyroSensitivity [OF k c2]
  from first(1) show ?thesis
  proof (elim disjE conjE)
    assume "writes f1 = writes f"
    then show ?thesis using second(1) by auto
  next
    assume w: "writes f1 = Suc (writes f)" and e: "error s1 \<noteq> 0"
    show ?thesis using second(2) [OF e] w by simp
  next
    assume w: "writes f1 = Suc (writes f)"
      and m: "drop_bit 3 (regs f1 (GY521_GYRO_CONFIG K)) AND 3 = clamp3 c"
    show ?thesis using second(3) [OF m] w by simp
  qed
qed

subsection \<open>Conversion of the words of a burst\<close>

text \<open>
  A read that is not throttled and is served by the bus stores, for every channel, the
  raw word of that channel times the scale factor plus the offset.
\<close>

lemma readAccel_channels:
  assumes "\<not> throttled s ms" and "burst_ok W (address s) (GY521_ACCEL_XOUT_H K) 6 w"
  shows "ax (fst (snd (readAccel K W ms s w))) =
      real_of_int (sint (burst_word W (address s) (GY521_ACCEL_XOUT_H K) 6 0 w)) * raw2g s + axe s"
    and "ay (fst (snd (readAccel K W ms s w))) =
      real_of_int (sint (burst_word W (address s) (GY521_ACCEL_XOUT_H K) 6 1 w)) * raw2g s + aye s"
    and "az (fst (snd (readAccel K W ms s w))) =
      real_of_int (sint (burst_word W (address s) (GY521_ACCEL_XOUT_H K) 6 2 w)) * raw2g s + aze s"
  using assms
  by (auto simp add: readAccel_def throttled_def bus_defs Let_def case_prod_beta)

lemma readGyro_channels:
  assumes "\<not> throttled s ms" and "burst_ok W (address s) (GY521_GYRO_XOUT_H K) 6 w"
  shows "gx (fst (snd (readGyro K W ms us s w))) =
      real_of_int (sint (burst_word W (address s) (GY521_GYRO_XOUT_H K) 6 0 w)) * raw2dps s + gxe s"
    and "gy (fst (snd (readGyro K W ms us s w))) =
      real_of_int (sint (burst_word W (address s) (GY521_GYRO_XOUT_H K) 6 1 w)) * raw2dps s + gye s"
    and "gz (fst (snd (readGyro K W ms us s w))) =
      real_of_int (sint (burst_word W (address s) (GY521_GYRO_XOUT_H K) 6 2 w)) * raw2dps s + gze s"
  using assms
  by (auto simp add: readGyro_def throttled_def bus_defs Let_def case_prod_beta)

lemma read_channels:
  assumes "\<not> throttled s ms" and "burst_ok W (address s) (GY521_ACCEL_XOUT_H K) 14 w"
  shows "ax (fst (snd (read K W ms us s w))) =
      real_of_int (sint (burst_word W (address s) (GY521_ACCEL_XOUT_H K) 14 0 w)) * raw2g s + axe s"
    and "ay (fst (snd (read K W ms us s w))) =
      real_of_int (sint (burst_word W (address s) (GY521_ACCEL_XOUT_H K) 14 1 w)) * raw2g s + aye s"
    and "az (fst (snd (read K W ms us s w))) =
      real_of_int (sint (burst_word W (address s) (GY521_ACCEL_XOUT_H K) 14 2 w)) * raw2g s + aze s"
    and "temperature (fst (snd (read K W ms us s w))) =
      real_of_int (sint (burst_word W (address s) (GY521_ACCEL_XOUT_H K) 14 3 w)) * 0.00294117647
        + 36.53"
    and "gx (fst (snd (read K W ms us s w))) =
      real_of_int (sint (burst_word W (address s) (GY521_ACCEL_XOUT_H K) 14 4 w)) * raw2dps s + gxe s"
    and "gy (fst (snd (read K W ms us s w))) =
      real_of_int (sint (burst_word W (address s) (GY521_ACCEL_XOUT_H K) 14 5 w)) * raw2dps s + gye s"
    and "gz (fst (snd (read K W ms us s w))) =
      real_of_int (sint (burst_word W (address s) (GY521_ACCEL_XOUT_H K) 14 6 w)) * raw2dps s + gze s"
  using assms
  by (auto simp add: read_def throttled_def bus_defs Let_def case_prod_beta)

section \<open>The claims\<close>

subsection \<open>C1: fusion in the full read\<close>

text \<open>
  C1 as stated pairs pitch with the X gyro integral and roll with the Y one. The source
  pairs them the other way round. On the example device (X rate 1, Y rate 2 degrees
  per second over one second, tilted 45 degrees) the read gives pitch 0.12 and roll 0.96,
  and neither reading of the claim's formulas (with the tilt named as in the source, or
  as in the spec) gives these values.
\<close>

theorem read_fusion_counterexample:
  "read example_header Fake 100 1000000 example_driver example_device =
     (GY521_OK, example_after_read, example_device\<lparr>pointer := 0x3B, txbuf := [0x3B]\<rparr>) \<and>
   pitch example_after_read \<noteq>
     fadd (fmul (Finite 0.96) (Finite (gax example_after_read)))
          (fmul (Finite 0.04) (aax example_after_read)) \<and>
   pitch example_after_read \<noteq>
     fadd (fmul (Finite 0.96) (Finite (gax example_after_read)))
          (fmul (Finite 0.04) (aay example_after_read)) \<and>
   roll example_after_read \<noteq>
     fadd (fmul (Finite 0.96) (Finite (gay example_after_read)))
          (fmul (Finite 0.04) (aay example_after_read)) \<and>
   roll example_after_read \<noteq>
     fadd (fmul (Finite 0.96) (Finite (gay example_after_read)))
          (fmul (Finite 0.04) (aax example_after_read))"
  using read_example by (simp add: example_after_read_def example_driver_def)

text \<open>
  C1, amended: after a successful full read, yaw equals the Z gyro-integrated angle
  \<open>gaz\<close>; pitch equals 0.96 times the Y gyro-integrated angle \<open>gay\<close> plus 0.04 times the
  tilt angle \<open>aay\<close>; roll equals 0.96 times the X gyro-integrated angle \<open>gax\<close> plus 0.04
  times the tilt angle \<open>aax\<close>. The tilt angle \<open>aay\<close> is the arc tangent of
  \<open>-ax / sqrt (ay\<^sup>2 + az\<^sup>2)\<close> in degrees and \<open>aax\<close> that of \<open>ay / sqrt (ax\<^sup>2 + az\<^sup>2)\<close>,
  computed as the floats do: with a zero divisor the angle is 90 or -90 degrees, or NaN
  when the dividend is 0 too, and a NaN angle makes the pitch or roll NaN. Each
  accumulator is the previous one plus the rate of its own axis times the elapsed time
  in seconds.
\<close>

theorem read_fusion:
  assumes "status_codes_ok K" and "read K W ms us s w = (GY521_OK, s', w')"
  shows "yaw s' = gaz s' \<and>
         pitch s' = fadd (fmul (Finite 0.96) (Finite (gay s'))) (fmul (Finite 0.04) (aay s')) \<and>
         roll s' = fadd (fmul (Finite 0.96) (Finite (gax s'))) (fmul (Finite 0.04) (aax s')) \<and>
         aax s' = fmul (fatan (fdiv (ay s') (sqrt (ax s' * ax s' + az s' * az s'))))
                    (Finite RAD2DEGREES) \<and>
         aay s' = fmul (fatan (fdiv (- 1.0 * ax s') (sqrt (ay s' * ay s' + az s' * az s'))))
                    (Finite RAD2DEGREES) \<and>
         gax s' = gax s + gx s' * (real (unat (us - lastMicros s)) * 0.000001) \<and>
         gay s' = gay s + gy s' * (real (unat (us - lastMicros s)) * 0.000001) \<and>
         gaz s' = gaz s + gz s' * (real (unat (us - lastMicros s)) * 0.000001)"
  using assms
  by (auto simp add: read_def status_codes_ok_def Let_def case_prod_beta split: if_splits)

text \<open>
  The theorem at three frames: the example device (no zero divisor: pitch 0.12, roll
  0.96), the device with only an X acceleration (the divisor of \<open>aay\<close> is 0: the angle is
  -90 degrees and the pitch 0.96 * 2 - 3.6 = -1.68), and the device with no acceleration
  (every tilt angle, the pitch and the roll are NaN).
\<close>

theorem read_fusion_witness:
  "status_codes_ok example_header \<and>
   read example_header Fake 100 1000000 example_driver example_device =
     (GY521_OK, example_after_read, example_device\<lparr>pointer := 0x3B, txbuf := [0x3B]\<rparr>) \<and>
   yaw example_after_read = gaz example_after_read \<and>
   pitch example_after_read =
     fadd (fmul (Finite 0.96) (Finite (gay example_after_read)))
          (fmul (Finite 0.04) (aay example_after_read)) \<and>
   roll example_after_read =
     fadd (fmul (Finite 0.96) (Finite (gax example_after_read)))
          (fmul (Finite 0.04) (aax example_after_read)) \<and>
   pitch example_after_read = Finite 0.12 \<and> roll example_after_read = Finite 0.96 \<and>
   yaw example_after_read = 1 \<and>
   read example_header Fake 100 1000000 example_driver example_device_x =
     (GY521_OK, example_after_read_x, example_device_x\<lparr>pointer := 0x3B, txbuf := [0x3B]\<rparr>) \<and>
   pitch example_after_read_x =
     fadd (fmul (Finite 0.96) (Finite (gay example_after_read_x)))
          (fmul (Finite 0.04) (aay example_after_read_x)) \<and>
   aay example_after_read_x = Finite (- 90) \<and> pitch example_after_read_x = Finite (- 1.68) \<and>
   read example_header Fake 100 1000000 example_driver example_device_flat =
     (GY521_OK, example_after_read_flat,
      example_device_flat\<lparr>pointer := 0x3B, txbuf := [0x3B]\<rparr>) \<and>
   pitch example_after_read_flat =
     fadd (fmul (Finite 0.96) (Finite (gay example_after_read_flat)))
          (fmul (Finite 0.04) (aay example_after_read_flat)) \<and>
   aay example_after_read_flat = NaN \<and> pitch example_after_read_flat = NaN \<and>
   roll example_after_read_flat = NaN"
proof -
  note fused = read_fusion [OF example_status_codes_ok read_example]
  note fused_x = read_fusion [OF example_status_codes_ok read_x_example]
  note fused_flat = read_fusion [OF example_status_codes_ok read_flat_example]
  have "pitch example_after_read = Finite 0.12 \<and> roll example_after_read = Finite 0.96 \<and>
      yaw example_after_read = 1"
    by (simp add: example_after_read_def)
  moreover have "aay example_after_read_x = Finite (- 90) \<and>
      pitch example_after_read_x = Finite (- 1.68)"
    by (simp add: example_after_read_x_def)
  moreover have "aay example_after_read_flat = NaN \<and> pitch example_after_read_flat = NaN \<and>
      roll example_after_read_flat = NaN"
    by (simp add: example_after_read_flat_def)
  ultimately show ?thesis
    using fused fused_x fused_flat example_status_codes_ok read_example read_x_example
      read_flat_example
    by blast
qed

subsection \<open>C2: the gyro-only read\<close>

text \<open>
  C2 as stated has \<open>readGyro\<close> update pitch, roll and yaw. The source of \<open>readGyro\<close> ends
  with the integration. On the example device a successful gyro-only read moves the
  accumulators to 1, 2 and 1 and leaves pitch, roll and yaw at 0, which is none of the
  fused values.
\<close>

theorem readGyro_fusion_counterexample:
  "readGyro example_header Fake 100 1000000 example_driver example_device =
     (GY521_OK, example_after_readGyro, example_device\<lparr>pointer := 0x43, txbuf := [0x43]\<rparr>) \<and>
   yaw example_after_readGyro \<noteq> gaz example_after_readGyro \<and>
   pitch example_after_readGyro \<noteq>
     fadd (fmul (Finite 0.96) (Finite (gay example_after_readGyro)))
          (fmul (Finite 0.04) (aay example_after_readGyro)) \<and>
   pitch example_after_readGyro \<noteq>
     fadd (fmul (Finite 0.96) (Finite (gax example_after_readGyro)))
          (fmul (Finite 0.04) (aax example_after_readGyro)) \<and>
   roll example_after_readGyro \<noteq>
     fadd (fmul (Finite 0.96) (Finite (gax example_after_readGyro)))
          (fmul (Finite 0.04) (aax example_after_readGyro)) \<and>
   roll example_after_readGyro \<noteq>
     fadd (fmul (Finite 0.96) (Finite (gay example_after_readGyro)))
          (fmul (Finite 0.04) (aay example_after_readGyro))"
  using readGyro_example by (simp add: example_after_readGyro_def example_driver_def)

text \<open>
  C2, amended: every successful gyro-only read performs the angular-rate conversion on
  the three axes (the raw word of the axis times \<open>raw2dps\<close> plus the offset of the axis)
  and the gyro integration over the time since the previous angular sample, and stores
  the new timing reference; it performs no fusion: pitch, roll and yaw, and the tilt
  angles, are left as they were.
\<close>

theorem readGyro_integrates_only:
  assumes "status_codes_ok K" and "readGyro K W ms us s w = (GY521_OK, s', w')"
  shows "pitch s' = pitch s \<and> roll s' = roll s \<and> yaw s' = yaw s \<and>
         aax s' = aax s \<and> aay s' = aay s \<and> aaz s' = aaz s \<and>
         gx s' = real_of_int (sint (burst_word W (address s) (GY521_GYRO_XOUT_H K) 6 0 w))
                   * raw2dps s + gxe s \<and>
         gy s' = real_of_int (sint (burst_word W (address s) (GY521_GYRO_XOUT_H K) 6 1 w))
                   * raw2dps s + gye s \<and>
         gz s' = real_of_int (sint (burst_word W (address s) (GY521_GYRO_XOUT_H K) 6 2 w))
                   * raw2dps s + gze s \<and>
         gax s' = gax s + gx s' * (real (unat (us - lastMicros s)) * 0.000001) \<and>
         gay s' = gay s + gy s' * (real (unat (us - lastMicros s)) * 0.000001) \<and>
         gaz s' = gaz s + gz s' * (real (unat (us - lastMicros s)) * 0.000001) \<and>
         lastMicros s' = us"
  using assms
  by (auto simp add: readGyro_def status_codes_ok_def bus_defs Let_def case_prod_beta
      split: if_splits)

theorem readGyro_integrates_only_witness:
  "status_codes_ok example_header \<and>
   readGyro example_header Fake 100 1000000 example_driver example_device =
     (GY521_OK, example_after_readGyro, example_device\<lparr>pointer := 0x43, txbuf := [0x43]\<rparr>) \<and>
   pitch example_after_readGyro = pitch example_driver \<and>
   roll example_after_readGyro = roll example_driver \<and>
   yaw example_after_readGyro = yaw example_driver \<and>
   gx example_after_readGyro =
     real_of_int (sint (burst_word Fake (address example_driver)
       (GY521_GYRO_XOUT_H example_header) 6 0 example_device))
       * raw2dps example_driver + gxe example_driver \<and>
   gy example_after_readGyro =
     real_of_int (sint (burst_word Fake (address example_driver)
       (GY521_GYRO_XOUT_H example_header) 6 1 example_device))
       * raw2dps example_driver + gye example_driver \<and>
   gz example_after_readGyro =
     real_of_int (sint (burst_word Fake (address example_driver)
       (GY521_GYRO_XOUT_H example_header) 6 2 example_device))
       * raw2dps example_driver + gze example_driver \<and>
   burst_word Fake (address example_driver) (GY521_GYRO_XOUT_H example_header) 6 0
     example_device = 131 \<and>
   burst_word Fake (address example_driver) (GY521_GYRO_XOUT_H example_header) 6 1
     example_device = 262 \<and>
   burst_word Fake (address example_driver) (GY521_GYRO_XOUT_H example_header) 6 2
     example_device = 131 \<and>
   gax example_after_readGyro =
     gax example_driver + gx example_after_readGyro
       * (real (unat (1000000 - lastMicros example_driver)) * 0.000001) \<and>
   lastMicros example_after_readGyro = 1000000 \<and>
   gx example_after_readGyro = 1 \<and> gy example_after_readGyro = 2 \<and>
   gz example_after_readGyro = 1 \<and> gax example_after_readGyro = 1 \<and>
   gay example_after_readGyro = 2 \<and> gaz example_after_readGyro = 1"
proof -
  note kept = readGyro_integrates_only [OF example_status_codes_ok readGyro_example]
  have raw: "burst_word Fake (address example_driver) (GY521_GYRO_XOUT_H example_header) 6 0
      example_device = 131"
    "burst_word Fake (address example_driver) (GY521_GYRO_XOUT_H example_header) 6 1
      example_device = 262"
    "burst_word Fake (address example_driver) (GY521_GYRO_XOUT_H example_header) 6 2
      example_device = 131"
    by (simp_all add: bus_defs WireRead2_def example_defs fake_defs Let_def)
  have "gx example_after_readGyro = 1 \<and> gy example_after_readGyro = 2 \<and>
      gz example_after_readGyro = 1 \<and> gax example_after_readGyro = 1 \<and>
      gay example_after_readGyro = 2 \<and> gaz example_after_readGyro = 1"
    by (simp add: example_after_readGyro_def)
  with kept raw example_status_codes_ok readGyro_example show ?thesis by blast
qed

subsection \<open>C3: the temperature-only read\<close>

text \<open>
  C3: every successful temperature-only read stores raw / 340 + 36.53. The source of
  \<open>readTemperature\<close> stores the raw word. A full read of the example device (raw
  temperature 0) stores 36.53; a temperature-only read of the same device then
  succeeds and stores 0.
\<close>

theorem readTemperature_stores_raw:
  "temperature example_after_read = 36.53 \<and>
   fst (readTemperature example_header Fake example_after_read example_device) = GY521_OK \<and>
   temperature (fst (snd (readTemperature example_header Fake example_after_read example_device)))
     = 0"
  by (simp add: readTemperature_example) (simp add: example_after_read_def)

subsection \<open>C4: reset\<close>

text \<open>
  C4: after \<open>reset\<close> all sample and fusion state is zero. The source of \<open>reset\<close> assigns
  0 to the accelerations, the tilt angles, the angular rates and pitch, roll and yaw, and
  does not assign the gyro-integrated accumulators: after a reset of the driver that has
  read the example device they are still 1, 2 and 1, while yaw is 0.
\<close>

theorem reset_keeps_gyro_accumulators:
  "gax (reset example_header example_after_read) = 1 \<and>
   gay (reset example_header example_after_read) = 2 \<and>
   gaz (reset example_header example_after_read) = 1 \<and>
   yaw (reset example_header example_after_read) = 0"
  by (simp add: reset_def setThrottleTime_def example_after_read_def example_driver_def)

subsection \<open>C5: the cached error code\<close>

text \<open>
  C5: the last-error code is overwritten by every bus operation and reads OK after one
  that succeeds. In the source no operation stores \<open>GY521_OK\<close>. A temperature read that
  is not acknowledged stores the write error; the next register read is served by the
  bus and returns the register's content, and the accessor still reads the write error,
  so that on the same healthy bus \<open>getAccelSensitivity\<close> returns the error code (0xFE as
  a byte) instead of the code 0 in the register, and \<open>setAccelSensitivity\<close> reports
  failure.
\<close>

theorem stale_error_after_successful_getRegister:
  "readTemperature example_header Fake example_driver example_device_nack =
     (GY521_ERROR_WRITE example_header,
      example_driver\<lparr>error := GY521_ERROR_WRITE example_header\<rparr>,
      example_device\<lparr>txbuf := [0x41]\<rparr>) \<and>
   burst_ok Fake (address example_driver) (GY521_ACCEL_CONFIG example_header) 1
     (example_device\<lparr>txbuf := [0x41]\<rparr>) \<and>
   fst (getRegister example_header Fake (GY521_ACCEL_CONFIG example_header)
     (example_driver\<lparr>error := GY521_ERROR_WRITE example_header\<rparr>)
     (example_device\<lparr>txbuf := [0x41]\<rparr>)) = regs example_device 0x1C \<and>
   getError (fst (snd (getRegister example_header Fake (GY521_ACCEL_CONFIG example_header)
     (example_driver\<lparr>error := GY521_ERROR_WRITE example_header\<rparr>)
     (example_device\<lparr>txbuf := [0x41]\<rparr>)))) = GY521_ERROR_WRITE example_header \<and>
   GY521_ERROR_WRITE example_header \<noteq> GY521_OK \<and>
   fst (getAccelSensitivity example_header Fake
     (example_driver\<lparr>error := GY521_ERROR_WRITE example_header\<rparr>)
     (example_device\<lparr>txbuf := [0x41]\<rparr>)) = 0xFE \<and>
   fst (setAccelSensitivity example_header Fake 0
     (example_driver\<lparr>error := GY521_ERROR_WRITE example_header\<rparr>)
     (example_device\<lparr>txbuf := [0x41]\<rparr>)) = False"
  by (simp add: readTemperature_nack_example)
    (simp add: getRegister_def setAccelSensitivity_def getAccelSensitivity_def getError_def
      bus_defs example_defs fake_defs GY521_OK_def Let_def)

subsection \<open>C6: the throttle timestamp\<close>

text \<open>
  C6 as stated leaves the timestamp unchanged when a read fails. The source stores the
  timestamp before the bus is touched: a full read that is not acknowledged, and an
  accelerometer read that receives no byte, both return their error and have moved the
  timestamp from 0 to 100.
\<close>

theorem failed_read_timestamp_counterexample:
  "fst (read example_header Fake 100 0 example_driver example_device_nack)
     = GY521_ERROR_WRITE example_header \<and>
   lastTime (fst (snd (read example_header Fake 100 0 example_driver example_device_nack)))
     \<noteq> lastTime example_driver \<and>
   fst (readAccel example_header Fake 100 example_driver example_device_short)
     = GY521_ERROR_READ example_header \<and>
   lastTime (fst (snd (readAccel example_header Fake 100 example_driver example_device_short)))
     \<noteq> lastTime example_driver \<and>
   lastTime example_driver = 0 \<and>
   lastTime (fst (snd (read example_header Fake 100 0 example_driver example_device_nack))) = 100"
  by (simp add: read_nack_example readAccel_short_example) (simp add: example_driver_def)

text \<open>
  C6, amended: the throttle timestamp records every attempted sample: each call of
  \<open>read\<close>, \<open>readAccel\<close> or \<open>readGyro\<close> that is not throttled stores the current
  millisecond time as the last-sample timestamp, whatever the bus does afterwards, so a
  call that fails with the write or the read error has updated it too.
\<close>

theorem unthrottled_read_stamps_time:
  assumes "\<not> throttled s ms"
  shows "lastTime (fst (snd (read K W ms us s w))) = ms \<and>
         lastTime (fst (snd (readAccel K W ms s w))) = ms \<and>
         lastTime (fst (snd (readGyro K W ms us s w))) = ms"
  using assms
  by (auto simp add: read_def readAccel_def readGyro_def throttled_def Let_def case_prod_beta)

theorem unthrottled_read_stamps_time_witness:
  "\<not> throttled example_driver 100 \<and>
   fst (read example_header Fake 100 0 example_driver example_device_nack)
     = GY521_ERROR_WRITE example_header \<and>
   lastTime (fst (snd (read example_header Fake 100 0 example_driver example_device_nack))) = 100 \<and>
   lastTime (fst (snd (readAccel example_header Fake 100 example_driver example_device_nack))) = 100 \<and>
   lastTime (fst (snd (readGyro example_header Fake 100 0 example_driver example_device_nack))) = 100"
proof -
  have free: "\<not> throttled example_driver 100"
    by (simp add: throttled_def example_driver_def)
  note stamped = unthrottled_read_stamps_time [OF free, of example_header Fake 0 example_device_nack]
  have "fst (read example_header Fake 100 0 example_driver example_device_nack)
      = GY521_ERROR_WRITE example_header"
    by (simp add: read_nack_example)
  with free stamped show ?thesis by blast
qed

subsection \<open>C7: a throttled read\<close>

text \<open>
  C7: for every driver state with throttling enabled, if the elapsed time since the last
  accepted sample is below the throttle interval, then \<open>read\<close>, \<open>readAccel\<close> and
  \<open>readGyro\<close> return the THROTTLED status, issue no bus transaction (the bus state of any
  transport is returned as it was) and leave every field of the driver unchanged.
\<close>

theorem throttled_read_is_skipped:
  assumes "throttled s ms"
  shows "read K W ms us s w = (GY521_THROTTLED K, s, w) \<and>
         readAccel K W ms s w = (GY521_THROTTLED K, s, w) \<and>
         readGyro K W ms us s w = (GY521_THROTTLED K, s, w)"
  using assms by (simp add: read_def readAccel_def readGyro_def throttled_def)

theorem throttled_read_is_skipped_witness:
  "throttled example_after_read 105 \<and>
   read example_header Fake 105 2000000 example_after_read example_device
     = (GY521_THROTTLED example_header, example_after_read, example_device) \<and>
   readAccel example_header Fake 105 example_after_read example_device
     = (GY521_THROTTLED example_header, example_after_read, example_device) \<and>
   readGyro example_header Fake 105 2000000 example_after_read example_device
     = (GY521_THROTTLED example_header, example_after_read, example_device)"
proof -
  have early: "throttled example_after_read 105"
    by (simp add: throttled_def example_after_read_def example_driver_def)
  from throttled_read_is_skipped [OF early, of example_header Fake 2000000 example_device] early
  show ?thesis by blast
qed

subsection \<open>C8: sensitivity and scale\<close>

text \<open>
  C8: for every sensitivity code \<open>c\<close> in 0..3, after \<open>setAccelSensitivity c\<close> has
  succeeded, a read converts a raw acceleration of 16384 on any of the three axes to
  \<open>1 << c\<close> g before the offset is added, in the accelerometer read and in the full
  read; after \<open>setGyroSensitivity c\<close> has succeeded, a read converts a raw angular rate
  of 131 on any of the three axes to \<open>1 << c\<close> degrees per second before the offset is
  added, in the gyro read and in the full read. (The read is one that is not throttled
  and is served by the bus; the raw values are the words of the burst in the order of
  the registers.)
\<close>

theorem sensitivity_scales_unit_raw:
  assumes "c \<le> 3"
  shows "(setAccelSensitivity K W c s w = (True, s', w') \<and> \<not> throttled s' ms \<and>
          burst_ok W (address s') (GY521_ACCEL_XOUT_H K) 6 wr \<longrightarrow>
            (burst_word W (address s') (GY521_ACCEL_XOUT_H K) 6 0 wr = 16384 \<longrightarrow>
              ax (fst (snd (readAccel K W ms s' wr))) - axe s' = 2 ^ unat c) \<and>
            (burst_word W (address s') (GY521_ACCEL_XOUT_H K) 6 1 wr = 16384 \<longrightarrow>
              ay (fst (snd (readAccel K W ms s' wr))) - aye s' = 2 ^ unat c) \<and>
            (burst_word W (address s') (GY521_ACCEL_XOUT_H K) 6 2 wr = 16384 \<longrightarrow>
              az (fst (snd (readAccel K W ms s' wr))) - aze s' = 2 ^ unat c)) \<and>
         (setAccelSensitivity K W c s w = (True, s', w') \<and> \<not> throttled s' ms \<and>
          burst_ok W (address s') (GY521_ACCEL_XOUT_H K) 14 wr \<longrightarrow>
            (burst_word W (address s') (GY521_ACCEL_XOUT_H K) 14 0 wr = 16384 \<longrightarrow>
              ax (fst (snd (read K W ms us s' wr))) - axe s' = 2 ^ unat c) \<and>
            (burst_word W (address s') (GY521_ACCEL_XOUT_H K) 14 1 wr = 16384 \<longrightarrow>
              ay (fst (snd (read K W ms us s' wr))) - aye s' = 2 ^ unat c) \<and>
            (burst_word W (address s') (GY521_ACCEL_XOUT_H K) 14 2 wr = 16384 \<longrightarrow>
              az (fst (snd (read K W ms us s' wr))) - aze s' = 2 ^ unat c)) \<and>
         (setGyroSensitivity K W c s w = (True, s', w') \<and> \<not> throttled s' ms \<and>
          burst_ok W (address s') (GY521_GYRO_XOUT_H K) 6 wr \<longrightarrow>
            (burst_word W (address s') (GY521_GYRO_XOUT_H K) 6 0 wr = 131 \<longrightarrow>
              gx (fst (snd (readGyro K W ms us s' wr))) - gxe s' = 2 ^ unat c) \<and>
            (burst_word W (address s') (GY521_GYRO_XOUT_H K) 6 1 wr = 131 \<longrightarrow>
              gy (fst (snd (readGyro K W ms us s' wr))) - gye s' = 2 ^ unat c) \<and>
            (burst_word W (address s') (GY521_GYRO_XOUT_H K) 6 2 wr = 131 \<longrightarrow>
              gz (fst (snd (readGyro K W ms us s' wr))) - gze s' = 2 ^ unat c)) \<and>
         (setGyroSensitivity K W c s w = (True, s', w') \<and> \<not> throttled s' ms \<and>
          burst_ok W (address s') (GY521_ACCEL_XOUT_H K) 14 wr \<longrightarrow>
            (burst_word W (address s') (GY521_ACCEL_XOUT_H K) 14 4 wr = 131 \<longrightarrow>
              gx (fst (snd (read K W ms us s' wr))) - gxe s' = 2 ^ unat c) \<and>
            (burst_word W (address s') (GY521_ACCEL_XOUT_H K) 14 5 wr = 131 \<longrightarrow>
              gy (fst (snd (read K W ms us s' wr))) - gye s' = 2 ^ unat c) \<and>
            (burst_word W (address s') (GY521_ACCEL_XOUT_H K) 14 6 wr = 131 \<longrightarrow>
              gz (fst (snd (read K W ms us s' wr))) - gze s' = 2 ^ unat c))"
proof -
  have c: "clamp3 c = c" using assms by (simp add: clamp3_def not_less [symmetric])
  have accel: "16384 * raw2g s' = 2 ^ unat c"
    if "setAccelSensitivity K W c s w = (True, s', w')"
    using setAccelSensitivity_True(1) [OF that] by (simp add: c RAW2G_FACTOR_def)
  have gyro: "131 * raw2dps s' = 2 ^ unat c"
    if "setGyroSensitivity K W c s w = (True, s', w')"
    using setGyroSensitivity_True(1) [OF that] by (simp add: c RAW2DPS_FACTOR_def)
  show ?thesis
    using accel gyro by (simp add: readAccel_channels read_channels readGyro_channels)
qed

text \<open>
  The theorem at code 2 on the device whose raw accelerations are all 16384 and whose
  raw rates are all 131: every converted value is 4.
\<close>

theorem sensitivity_scales_unit_raw_witness:
  "(2 :: 8 word) \<le> 3 \<and>
   setAccelSensitivity example_header Fake 2 example_driver example_device_unit =
     (True, example_after_setAccel, example_device_unit_configured 0x1C) \<and>
   setGyroSensitivity example_header Fake 2 example_driver example_device_unit =
     (True, example_after_setGyro, example_device_unit_configured 0x1B) \<and>
   \<not> throttled example_after_setAccel 100 \<and>
   \<not> throttled example_after_setGyro 100 \<and>
   burst_ok Fake (address example_after_setAccel) (GY521_ACCEL_XOUT_H example_header) 6
     (example_device_unit_configured 0x1C) \<and>
   burst_ok Fake (address example_after_setAccel) (GY521_ACCEL_XOUT_H example_header) 14
     (example_device_unit_configured 0x1C) \<and>
   burst_ok Fake (address example_after_setGyro) (GY521_GYRO_XOUT_H example_header) 6
     (example_device_unit_configured 0x1B) \<and>
   burst_ok Fake (address example_after_setGyro) (GY521_ACCEL_XOUT_H example_header) 14
     (example_device_unit_configured 0x1B) \<and>
   burst_word Fake (address example_after_setAccel) (GY521_ACCEL_XOUT_H example_header) 6 0
     (example_device_unit_configured 0x1C) = 16384 \<and>
   burst_word Fake (address example_after_setAccel) (GY521_ACCEL_XOUT_H example_header) 6 1
     (example_device_unit_configured 0x1C) = 16384 \<and>
   burst_word Fake (address example_after_setAccel) (GY521_ACCEL_XOUT_H example_header) 6 2
     (example_device_unit_configured 0x1C) = 16384 \<and>
   burst_word Fake (address example_after_setAccel) (GY521_ACCEL_XOUT_H example_header) 14 0
     (example_device_unit_configured 0x1C) = 16384 \<and>
   burst_word Fake (address example_after_setAccel) (GY521_ACCEL_XOUT_H example_header) 14 1
     (example_device_unit_configured 0x1C) = 16384 \<and>
   burst_word Fake (address example_after_setAccel) (GY521_ACCEL_XOUT_H example_header) 14 2
     (example_device_unit_configured 0x1C) = 16384 \<and>
   burst_word Fake (address example_after_setGyro) (GY521_GYRO_XOUT_H example_header) 6 0
     (example_device_unit_configured 0x1B) = 131 \<and>
   burst_word Fake (address example_after_setGyro) (GY521_GYRO_XOUT_H example_header) 6 1
     (example_device_unit_configured 0x1B) = 131 \<and>
   burst_word Fake (address example_after_setGyro) (GY521_GYRO_XOUT_H example_header) 6 2
     (example_device_unit_configured 0x1B) = 131 \<and>
   burst_word Fake (address example_after_setGyro) (GY521_ACCEL_XOUT_H example_header) 14 4
     (example_device_unit_configured 0x1B) = 131 \<and>
   burst_word Fake (address example_after_setGyro) (GY521_ACCEL_XOUT_H example_header) 14 5
     (example_device_unit_configured 0x1B) = 131 \<and>
   burst_word Fake (address example_after_setGyro) (GY521_ACCEL_XOUT_H example_header) 14 6
     (example_device_unit_configured 0x1B) = 131 \<and>
   ax (fst (snd (readAccel example_header Fake 100 example_after_setAccel
     (example_device_unit_configured 0x1C)))) - axe example_after_setAccel = 4 \<and>
   ay (fst (snd (readAccel example_header Fake 100 example_after_setAccel
     (example_device_unit_configured 0x1C)))) - aye example_after_setAccel = 4 \<and>
   az (fst (snd (readAccel example_header Fake 100 example_after_setAccel
     (example_device_unit_configured 0x1C)))) - aze example_after_setAccel = 4 \<and>
   ax (fst (snd (read example_header Fake 100 1000000 example_after_setAccel
     (example_device_unit_configured 0x1C)))) - axe example_after_setAccel = 4 \<and>
   ay (fst (snd (read example_header Fake 100 1000000 example_after_setAccel
     (example_device_unit_configured 0x1C)))) - aye example_after_setAccel = 4 \<and>
   az (fst (snd (read example_header Fake 100 1000000 example_after_setAccel
     (example_device_unit_configured 0x1C)))) - aze example_after_setAccel = 4 \<and>
   gx (fst (snd (readGyro example_header Fake 100 1000000 example_after_setGyro
     (example_device_unit_configured 0x1B)))) - gxe example_after_setGyro = 4 \<and>
   gy (fst (snd (readGyro example_header Fake 100 1000000 example_after_setGyro
     (example_device_unit_configured 0x1B)))) - gye example_after_setGyro = 4 \<and>
   gz (fst (snd (readGyro example_header Fake 100 1000000 example_after_setGyro
     (example_device_unit_configured 0x1B)))) - gze example_after_setGyro = 4 \<and>
   gx (fst (snd (read example_header Fake 100 1000000 example_after_setGyro
     (example_device_unit_configured 0x1B)))) - gxe example_after_setGyro = 4 \<and>
   gy (fst (snd (read example_header Fake 100 1000000 example_after_setGyro
     (example_device_unit_configured 0x1B)))) - gye example_after_setGyro = 4 \<and>
   gz (fst (snd (read example_header Fake 100 1000000 example_after_setGyro
     (example_device_unit_configured 0x1B)))) - gze example_after_setGyro = 4"
proof -
  have code: "(2 :: 8 word) \<le> 3" by simp
  have free: "\<not> throttled example_after_setAccel 100" "\<not> throttled example_after_setGyro 100"
    by (simp_all add: throttled_def example_defs)
  have served:
    "burst_ok Fake (address example_after_setAccel) (GY521_ACCEL_XOUT_H example_header) 6
      (example_device_unit_configured 0x1C)"
    "burst_ok Fake (address example_after_setAccel) (GY521_ACCEL_XOUT_H example_header) 14
      (example_device_unit_configured 0x1C)"
    "burst_ok Fake (address example_after_setGyro) (GY521_GYRO_XOUT_H example_header) 6
      (example_device_unit_configured 0x1B)"
    "burst_ok Fake (address example_after_setGyro) (GY521_ACCEL_XOUT_H example_header) 14
      (example_device_unit_configured 0x1B)"
    by (simp_all add: bus_defs example_defs fake_defs Let_def)
  have raw:
    "burst_word Fake (address example_after_setAccel) (GY521_ACCEL_XOUT_H example_header) 6 0
      (example_device_unit_configured 0x1C) = 16384"
    "burst_word Fake (address example_after_setAccel) (GY521_ACCEL_XOUT_H example_header) 6 1
      (example_device_unit_configured 0x1C) = 16384"
    "burst_word Fake (address example_after_setAccel) (GY521_ACCEL_XOUT_H example_header) 6 2
      (example_device_unit_configured 0x1C) = 16384"
    "burst_word Fake (address example_after_setAccel) (GY521_ACCEL_XOUT_H example_header) 14 0
      (example_device_unit_configured 0x1C) = 16384"
    "burst_word Fake (address example_after_setAccel) (GY521_ACCEL_XOUT_H example_header) 14 1
      (example_device_unit_configured 0x1C) = 16384"
    "burst_word Fake (address example_after_setAccel) (GY521_ACCEL_XOUT_H example_header) 14 2
      (example_device_unit_configured 0x1C) = 16384"
    "burst_word Fake (address example_after_setGyro) (GY521_GYRO_XOUT_H example_header) 6 0
      (example_device_unit_configured 0x1B) = 131"
    "burst_word Fake (address example_after_setGyro) (GY521_GYRO_XOUT_H example_header) 6 1
      (example_device_unit_configured 0x1B) = 131"
    "burst_word Fake (address example_after_setGyro) (GY521_GYRO_XOUT_H example_header) 6 2
      (example_device_unit_configured 0x1B) = 131"
    "burst_word Fake (address example_after_setGyro) (GY521_ACCEL_XOUT_H example_header) 14 4
      (example_device_unit_configured 0x1B) = 131"
    "burst_word Fake (address example_after_setGyro) (GY521_ACCEL_XOUT_H example_header) 14 5
      (example_device_unit_configured 0x1B) = 131"
    "burst_word Fake (address example_after_setGyro) (GY521_ACCEL_XOUT_H example_header) 14 6
      (example_device_unit_configured 0x1B) = 131"
    by (simp_all add: bus_defs WireRead2_def example_defs fake_defs Let_def)
  note scaled = sensitivity_scales_unit_raw [OF code, where K = example_header and W = Fake
      and s = example_driver and w = example_device_unit and ms = 100 and us = 1000000]
  note accel = scaled [where s' = example_after_setAccel
      and w' = "example_device_unit_configured 0x1C"
      and wr = "example_device_unit_configured 0x1C"]
  note gyro = scaled [where s' = example_after_setGyro
      and w' = "example_device_unit_configured 0x1B"
      and wr = "example_device_unit_configured 0x1B"]
  have four: "2 ^ unat (2 :: 8 word) = (4 :: real)" by simp
  have a6: "ax (fst (snd (readAccel example_header Fake 100 example_after_setAccel
        (example_device_unit_configured 0x1C)))) - axe example_after_setAccel = 4 \<and>
      ay (fst (snd (readAccel example_header Fake 100 example_after_setAccel
        (example_device_unit_configured 0x1C)))) - aye example_after_setAccel = 4 \<and>
      az (fst (snd (readAccel example_header Fake 100 example_after_setAccel
        (example_device_unit_configured 0x1C)))) - aze example_after_setAccel = 4"
    using accel [THEN conjunct1] setAccelSensitivity_unit_example free(1) served(1) raw(1-3)
    unfolding four by blast
  have a14: "ax (fst (snd (read example_header Fake 100 1000000 example_after_setAccel
        (example_device_unit_configured 0x1C)))) - axe example_after_setAccel = 4 \<and>
      ay (fst (snd (read example_header Fake 100 1000000 example_after_setAccel
        (example_device_unit_configured 0x1C)))) - aye example_after_setAccel = 4 \<and>
      az (fst (snd (read example_header Fake 100 1000000 example_after_setAccel
        (example_device_unit_configured 0x1C)))) - aze example_after_setAccel = 4"
    using accel [THEN conjunct2, THEN conjunct1] setAccelSensitivity_unit_example free(1)
      served(2) raw(4-6)
    unfolding four by blast
  have g6: "gx (fst (snd (readGyro example_header Fake 100 1000000 example_after_setGyro
        (example_device_unit_configured 0x1B)))) - gxe example_after_setGyro = 4 \<and>
      gy (fst (snd (readGyro example_header Fake 100 1000000 example_after_setGyro
        (example_device_unit_configured 0x1B)))) - gye example_after_setGyro = 4 \<and>
      gz (fst (snd (readGyro example_header Fake 100 1000000 example_after_setGyro
        (example_device_unit_configured 0x1B)))) - gze example_after_setGyro = 4"
    using gyro [THEN conjunct2, THEN conjunct2, THEN conjunct1] setGyroSensitivity_unit_example
      free(2) served(3) raw(7-9)
    unfolding four by blast
  have g14: "gx (fst (snd (read example_header Fake 100 1000000 example_after_setGyro
        (example_device_unit_configured 0x1B)))) - gxe example_after_setGyro = 4 \<and>
      gy (fst (snd (read example_header Fake 100 1000000 example_after_setGyro
        (example_device_unit_configured 0x1B)))) - gye example_after_setGyro = 4 \<and>
      gz (fst (snd (read example_header Fake 100 1000000 example_after_setGyro
        (example_device_unit_configured 0x1B)))) - gze example_after_setGyro = 4"
    using gyro [THEN conjunct2, THEN conjunct2, THEN conjunct2] setGyroSensitivity_unit_example
      free(2) served(4) raw(10-12)
    unfolding four by blast
  show ?thesis
    using code setAccelSensitivity_unit_example setGyroSensitivity_unit_example free served raw
      a6 a14 g6 g14
    by blast
qed

subsection \<open>C9: no redundant write\<close>

text \<open>
  C9: a sensitivity setter called with a code whose clamped value equals bits 3 and 4
  of the value read from the configuration register issues no register write: for any
  transport, the bus is left as the register read left it. Hence, on the fake transport
  with any script of faults, two consecutive calls with the same code issue at most one
  register write (given that the two error codes differ from OK).
\<close>

theorem setter_skips_matching_write:
  "(getRegister K W (GY521_ACCEL_CONFIG K) (s\<lparr>afs := clamp3 c\<rparr>) w = (val, sa, wa) \<and>
    drop_bit 3 val AND 3 = clamp3 c \<longrightarrow>
      snd (snd (setAccelSensitivity K W c s w)) = wa) \<and>
   (getRegister K W (GY521_GYRO_CONFIG K) (s\<lparr>gfs := clamp3 c\<rparr>) w = (val, sa, wa) \<and>
    drop_bit 3 val AND 3 = clamp3 c \<longrightarrow>
      snd (snd (setGyroSensitivity K W c s w)) = wa) \<and>
   (GY521_ERROR_READ K \<noteq> GY521_OK \<and> GY521_ERROR_WRITE K \<noteq> GY521_OK \<and>
    setAccelSensitivity K Fake c t f = (ba, ta, fa) \<and>
    setAccelSensitivity K Fake c ta fa = (bb, tb, fb) \<longrightarrow>
      writes fb \<le> Suc (writes f)) \<and>
   (GY521_ERROR_READ K \<noteq> GY521_OK \<and> GY521_ERROR_WRITE K \<noteq> GY521_OK \<and>
    setGyroSensitivity K Fake c t f = (ba, ta, fa) \<and>
    setGyroSensitivity K Fake c ta fa = (bb, tb, fb) \<longrightarrow>
      writes fb \<le> Suc (writes f))"
proof (intro conjI impI; elim conjE)
  assume g: "getRegister K W (GY521_ACCEL_CONFIG K) (s\<lparr>afs := clamp3 c\<rparr>) w = (val, sa, wa)"
    and m: "drop_bit 3 val AND 3 = clamp3 c"
  obtain r sb wb where t:
    "setRegister K W (GY521_ACCEL_CONFIG K) ((val AND 0xE7) OR push_bit 3 (clamp3 c)) sa wa
      = (r, sb, wb)"
    by (metis prod_cases3)
  show "snd (snd (setAccelSensitivity K W c s w)) = wa"
    unfolding setAccelSensitivity_cases [OF g t] using m by simp
next
  assume g: "getRegister K W (GY521_GYRO_CONFIG K) (s\<lparr>gfs := clamp3 c\<rparr>) w = (val, sa, wa)"
    and m: "drop_bit 3 val AND 3 = clamp3 c"
  obtain r sb wb where t:
    "setRegister K W (GY521_GYRO_CONFIG K) ((val AND 0xE7) OR push_bit 3 (clamp3 c)) sa wa
      = (r, sb, wb)"
    by (metis prod_cases3)
  show "snd (snd (setGyroSensitivity K W c s w)) = wa"
    unfolding setGyroSensitivity_cases [OF g t] using m by simp
next
  assume "GY521_ERROR_READ K \<noteq> GY521_OK" "GY521_ERROR_WRITE K \<noteq> GY521_OK"
    "setAccelSensitivity K Fake c t f = (ba, ta, fa)"
    "setAccelSensitivity K Fake c ta fa = (bb, tb, fb)"
  then show "writes fb \<le> Suc (writes f)" by (rule fake_setAccelSensitivity_twice)
next
  assume "GY521_ERROR_READ K \<noteq> GY521_OK" "GY521_ERROR_WRITE K \<noteq> GY521_OK"
    "setGyroSensitivity K Fake c t f = (ba, ta, fa)"
    "setGyroSensitivity K Fake c ta fa = (bb, tb, fb)"
  then show "writes fb \<le> Suc (writes f)" by (rule fake_setGyroSensitivity_twice)
qed

theorem setter_skips_matching_write_witness:
  "GY521_ERROR_READ example_header \<noteq> GY521_OK \<and> GY521_ERROR_WRITE example_header \<noteq> GY521_OK \<and>
   getRegister example_header Fake (GY521_ACCEL_CONFIG example_header)
     (example_after_setAccel\<lparr>afs := clamp3 2\<rparr>) (example_device_configured 0x1C) =
     (0x10, example_after_setAccel, (example_device_configured 0x1C)\<lparr>txbuf := [0x1C]\<rparr>) \<and>
   drop_bit 3 (0x10 :: 8 word) AND 3 = clamp3 2 \<and>
   snd (snd (setAccelSensitivity example_header Fake 2 example_after_setAccel
     (example_device_configured 0x1C))) = (example_device_configured 0x1C)\<lparr>txbuf := [0x1C]\<rparr> \<and>
   setAccelSensitivity example_header Fake 2 example_driver example_device =
     (True, example_after_setAccel, example_device_configured 0x1C) \<and>
   setAccelSensitivity example_header Fake 2 example_after_setAccel
     (example_device_configured 0x1C) =
     (True, example_after_setAccel, (example_device_configured 0x1C)\<lparr>txbuf := [0x1C]\<rparr>) \<and>
   writes ((example_device_configured 0x1C)\<lparr>txbuf := [0x1C]\<rparr>) \<le> Suc (writes example_device) \<and>
   setGyroSensitivity example_header Fake 2 example_driver example_device =
     (True, example_after_setGyro, example_device_configured 0x1B) \<and>
   setGyroSensitivity example_header Fake 2 example_after_setGyro
     (example_device_configured 0x1B) =
     (True, example_after_setGyro, (example_device_configured 0x1B)\<lparr>txbuf := [0x1B]\<rparr>) \<and>
   writes ((example_device_configured 0x1B)\<lparr>txbuf := [0x1B]\<rparr>) \<le> Suc (writes example_device)"
proof -
  have k: "GY521_ERROR_READ example_header \<noteq> GY521_OK"
    "GY521_ERROR_WRITE example_header \<noteq> GY521_OK"
    by (simp_all add: example_header_def GY521_OK_def)
  have g: "getRegister example_header Fake (GY521_ACCEL_CONFIG example_header)
      (example_after_setAccel\<lparr>afs := clamp3 2\<rparr>) (example_device_configured 0x1C) =
      (0x10, example_after_setAccel, (example_device_configured 0x1C)\<lparr>txbuf := [0x1C]\<rparr>)"
    by (simp add: getRegister_def clamp3_def example_defs fake_defs Let_def)
  have m: "drop_bit 3 (0x10 :: 8 word) AND 3 = clamp3 2"
    by (simp add: clamp3_def)
  note skip = setter_skips_matching_write
    [where K = example_header and W = Fake and c = 2 and ba = True and bb = True
      and t = example_driver and f = example_device]
  have a: "snd (snd (setAccelSensitivity example_header Fake 2 example_after_setAccel
      (example_device_configured 0x1C))) = (example_device_configured 0x1C)\<lparr>txbuf := [0x1C]\<rparr>"
    using skip [where s = example_after_setAccel and w = "example_device_configured 0x1C"
        and val = "0x10" and sa = example_after_setAccel
        and wa = "(example_device_configured 0x1C)\<lparr>txbuf := [0x1C]\<rparr>", THEN conjunct1] g m
    by blast
  have b: "writes ((example_device_configured 0x1C)\<lparr>txbuf := [0x1C]\<rparr>)
      \<le> Suc (writes example_device)"
    using skip [where ta = example_after_setAccel and fa = "example_device_configured 0x1C"
        and tb = example_after_setAccel
        and fb = "(example_device_configured 0x1C)\<lparr>txbuf := [0x1C]\<rparr>",
        THEN conjunct2, THEN conjunct2, THEN conjunct1] k
      setAccelSensitivity_example setAccelSensitivity_again_example by blast
  have c: "writes ((example_device_configured 0x1B)\<lparr>txbuf := [0x1B]\<rparr>)
      \<le> Suc (writes example_device)"
    using skip [where ta = example_after_setGyro and fa = "example_device_configured 0x1B"
        and tb = example_after_setGyro
        and fb = "(example_device_configured 0x1B)\<lparr>txbuf := [0x1B]\<rparr>",
        THEN conjunct2, THEN conjunct2, THEN conjunct2] k
      setGyroSensitivity_example setGyroSensitivity_again_example by blast
  show ?thesis
    using k g m a b c setAccelSensitivity_example setAccelSensitivity_again_example
      setGyroSensitivity_example setGyroSensitivity_again_example
    by blast
qed

subsection \<open>C10: a setter whose register read fails\<close>

text \<open>
  C10: when the read of the configuration register fails on the bus (the select is not
  acknowledged, or the request does not deliver exactly one byte), \<open>setAccelSensitivity\<close>
  and \<open>setGyroSensitivity\<close> return false and leave the scale factor (\<open>raw2g\<close>, \<open>raw2dps\<close>)
  unchanged, while the cached sensitivity code already holds the clamped argument: the
  failed call is not atomic on the driver state. (The two error codes are taken to
  differ from OK.)
\<close>

theorem failed_config_read_is_not_atomic:
  assumes "GY521_ERROR_READ K \<noteq> GY521_OK" and "GY521_ERROR_WRITE K \<noteq> GY521_OK"
  shows "(\<not> burst_ok W (address s) (GY521_ACCEL_CONFIG K) 1 w \<longrightarrow>
            fst (setAccelSensitivity K W c s w) = False \<and>
            raw2g (fst (snd (setAccelSensitivity K W c s w))) = raw2g s \<and>
            afs (fst (snd (setAccelSensitivity K W c s w))) = clamp3 c) \<and>
         (\<not> burst_ok W (address s) (GY521_GYRO_CONFIG K) 1 w \<longrightarrow>
            fst (setGyroSensitivity K W c s w) = False \<and>
            raw2dps (fst (snd (setGyroSensitivity K W c s w))) = raw2dps s \<and>
            gfs (fst (snd (setGyroSensitivity K W c s w))) = clamp3 c)"
  using assms by (simp add: setAccelSensitivity_read_fails setGyroSensitivity_read_fails)

theorem failed_config_read_is_not_atomic_witness:
  "GY521_ERROR_READ example_header \<noteq> GY521_OK \<and> GY521_ERROR_WRITE example_header \<noteq> GY521_OK \<and>
   \<not> burst_ok Fake (address example_driver) (GY521_ACCEL_CONFIG example_header) 1
       example_device_nack \<and>
   \<not> burst_ok Fake (address example_driver) (GY521_GYRO_CONFIG example_header) 1
       example_device_short \<and>
   fst (setAccelSensitivity example_header Fake 7 example_driver example_device_nack) = False \<and>
   raw2g (fst (snd (setAccelSensitivity example_header Fake 7 example_driver example_device_nack)))
     = raw2g example_driver \<and>
   afs (fst (snd (setAccelSensitivity example_header Fake 7 example_driver example_device_nack)))
     = 3 \<and>
   afs example_driver = 0 \<and>
   fst (setGyroSensitivity example_header Fake 7 example_driver example_device_short) = False \<and>
   raw2dps (fst (snd (setGyroSensitivity example_header Fake 7 example_driver example_device_short)))
     = raw2dps example_driver \<and>
   gfs (fst (snd (setGyroSensitivity example_header Fake 7 example_driver example_device_short)))
     = 3 \<and>
   gfs example_driver = 0"
proof -
  have k: "GY521_ERROR_READ example_header \<noteq> GY521_OK"
    "GY521_ERROR_WRITE example_header \<noteq> GY521_OK"
    by (simp_all add: example_header_def GY521_OK_def)
  have nack: "\<not> burst_ok Fake (address example_driver) (GY521_ACCEL_CONFIG example_header) 1
      example_device_nack"
    by (simp add: bus_defs example_defs fake_defs Let_def)
  have short: "\<not> burst_ok Fake (address example_driver) (GY521_GYRO_CONFIG example_header) 1
      example_device_short"
    by (simp add: bus_defs example_defs fake_defs Let_def)
  have code: "clamp3 7 = 3" "afs example_driver = 0" "gfs example_driver = 0"
    by (simp_all add: clamp3_def example_driver_def)
  note failed = failed_config_read_is_not_atomic [OF k, where W = Fake and s = example_driver and c = 7]
  show ?thesis
    using failed [where w = example_device_nack, THEN conjunct1]
      failed [where w = example_device_short, THEN conjunct2] k nack short code
    by simp
qed


end
